theory Spec2Isabelle
  imports Complex_Main "HOL-Library.AList"
begin

section \<open>The platform: clock, gain nodes and buffer sources\<close>

text \<open>
  The repository holds two playback engines written against the Web Audio API:
  the class \<open>AudioEngine\<close> (one state object per deck, ids \<open>A\<close> and \<open>B\<close>) and the class
  \<open>AudioManager\<close> (one state object per loaded track, keyed by a track id).
  Both are embedded here by explicit state passing.

  JavaScript numbers are modelled as \<open>real\<close>: rounding of IEEE doubles and the value
  NaN are outside the model, so an equation proved here holds in the program up to
  floating-point rounding.

  The parts of the Web Audio API that the engines call are modelled as far as the
  engines observe them:
  \<^item> an \<open>AudioContext\<close> is its hardware clock \<open>currentTime\<close> and whether it is suspended;
  \<^item> a \<open>GainNode\<close> is the value of its gain parameter and the last target set by
    \<open>setTargetAtTime (target, startTime, timeConstant)\<close>;
  \<^item> an \<open>AudioBufferSourceNode\<close> is a one-shot node: \<open>start\<close> raises a RangeError
    on a negative time or offset and an InvalidStateError when called twice, \<open>stop\<close>
    raises an InvalidStateError on a node that was never started, and the platform
    dispatches one \<open>ended\<close> event per node, after \<open>stop\<close> or when rendering reaches the
    end of the buffer.
  Connections between nodes are not modelled.
\<close>

datatype deck_id = A | B

record audio_buffer =
  buf_duration :: real
  buf_sampleRate :: real
  buf_numberOfChannels :: nat

record audio_context =
  ctx_currentTime :: real
  ctx_suspended :: bool

record gain_node =
  gain_value :: real
  gain_target :: "(real \<times> real \<times> real) option"

definition createGain :: gain_node where
  "createGain = \<lparr>gain_value = 1, gain_target = None\<rparr>"

definition setTargetAtTime :: "real \<Rightarrow> real \<Rightarrow> real \<Rightarrow> gain_node \<Rightarrow> gain_node" where
  "setTargetAtTime target startTime timeConstant g =
     g\<lparr>gain_target := Some (target, startTime, timeConstant)\<rparr>"

datatype source_status = Created | Started | Stopped

text \<open>
  \<open>'h\<close> is what the \<open>onended\<close> closure of an engine captures: the deck id in
  \<open>AudioEngine\<close>, the track object and the deck id in \<open>AudioManager\<close>.
\<close>

record 'h source_node =
  sn_buffer :: "audio_buffer option"
  sn_status :: source_status
  sn_when :: real
  sn_offset :: real
  sn_onended :: "'h option"
  sn_dispatched :: bool

definition createBufferSource :: "'h source_node" where
  "createBufferSource =
     \<lparr>sn_buffer = None, sn_status = Created, sn_when = 0, sn_offset = 0,
      sn_onended = None, sn_dispatched = False\<rparr>"

text \<open>\<open>source.start (when, offset)\<close> at clock value \<open>now\<close>; \<open>None\<close> is the exception.\<close>

definition node_start :: "real \<Rightarrow> real \<Rightarrow> real \<Rightarrow> 'h source_node \<Rightarrow> 'h source_node option" where
  "node_start now when offset n =
     (if when < 0 \<or> offset < 0 then None
      else if sn_status n \<noteq> Created then None
      else Some (n\<lparr>sn_status := Started, sn_when := max when now, sn_offset := offset\<rparr>))"

text \<open>\<open>source.stop ()\<close>; \<open>None\<close> is the exception.\<close>

definition node_stop :: "'h source_node \<Rightarrow> 'h source_node option" where
  "node_stop n =
     (if sn_status n = Created then None else Some (n\<lparr>sn_status := Stopped\<rparr>))"

text \<open>
  Rendering has reached the end of the buffer: the node was started at clock value
  \<open>sn_when\<close> from \<open>sn_offset\<close> and the clock has covered the rest of the buffer.
\<close>

definition node_finished :: "real \<Rightarrow> 'h source_node \<Rightarrow> bool" where
  "node_finished now n =
     (case sn_buffer n of
        None \<Rightarrow> True
      | Some b \<Rightarrow> buf_duration b - sn_offset n \<le> now - sn_when n)"

text \<open>The platform may dispatch the \<open>ended\<close> event of a node once, after a stop or at the end.\<close>

definition node_can_end :: "real \<Rightarrow> 'h source_node \<Rightarrow> bool" where
  "node_can_end now n =
     (\<not> sn_dispatched n \<and>
      (sn_status n = Stopped \<or> (sn_status n = Started \<and> node_finished now n)))"

text \<open>The hardware clock advances by \<open>dt\<close> seconds while the context is running.\<close>

definition ctx_advance :: "real \<Rightarrow> audio_context \<Rightarrow> audio_context" where
  "ctx_advance dt c =
     (if ctx_suspended c then c else c\<lparr>ctx_currentTime := ctx_currentTime c + dt\<rparr>)"

text \<open>\<open>Math.max (lo, Math.min (hi, x))\<close>, the clamp both engines write out.\<close>

definition clamp :: "real \<Rightarrow> real \<Rightarrow> real \<Rightarrow> real" where
  "clamp lo hi x = max lo (min hi x)"

datatype js_error = TypeError

section \<open>AudioEngine: one state object per deck\<close>

record ae_track =
  et_id :: string
  et_audioBuffer :: "audio_buffer option"
  et_audioUrl :: "string option"
  et_duration :: real
  et_isLoaded :: bool

record deck_audio_state =
  dk_id :: deck_id
  dk_audioTrack :: "ae_track option"
  dk_isPlaying :: bool
  dk_position :: real
  dk_volume :: real
  dk_startTime :: real
  dk_pauseTime :: real

record audio_engine =
  ae_audioContext :: "audio_context option"
  ae_masterGainNode :: "gain_node option"
  ae_deckAGainNode :: "gain_node option"
  ae_deckBGainNode :: "gain_node option"
  ae_crossfaderGainA :: "gain_node option"
  ae_crossfaderGainB :: "gain_node option"
  ae_deckASource :: "nat option"
  ae_deckBSource :: "nat option"
  ae_deckAState :: deck_audio_state
  ae_deckBState :: deck_audio_state
  ae_crossfaderPosition :: real
  ae_masterVolume :: real
  ae_nodes :: "nat \<Rightarrow> deck_id source_node"
  ae_nextNode :: nat

text \<open>The selections \<open>deckId === 'A' ? this.deckAState : this.deckBState\<close> and their writes.\<close>

definition ae_deckState :: "deck_id \<Rightarrow> audio_engine \<Rightarrow> deck_audio_state" where
  "ae_deckState d s = (case d of A \<Rightarrow> ae_deckAState s | B \<Rightarrow> ae_deckBState s)"

definition ae_setDeckState :: "deck_id \<Rightarrow> deck_audio_state \<Rightarrow> audio_engine \<Rightarrow> audio_engine" where
  "ae_setDeckState d ds s =
     (case d of A \<Rightarrow> s\<lparr>ae_deckAState := ds\<rparr> | B \<Rightarrow> s\<lparr>ae_deckBState := ds\<rparr>)"

definition ae_source :: "deck_id \<Rightarrow> audio_engine \<Rightarrow> nat option" where
  "ae_source d s = (case d of A \<Rightarrow> ae_deckASource s | B \<Rightarrow> ae_deckBSource s)"

definition ae_setSource :: "deck_id \<Rightarrow> nat option \<Rightarrow> audio_engine \<Rightarrow> audio_engine" where
  "ae_setSource d src s =
     (case d of A \<Rightarrow> s\<lparr>ae_deckASource := src\<rparr> | B \<Rightarrow> s\<lparr>ae_deckBSource := src\<rparr>)"

definition ae_gainNode :: "deck_id \<Rightarrow> audio_engine \<Rightarrow> gain_node option" where
  "ae_gainNode d s = (case d of A \<Rightarrow> ae_deckAGainNode s | B \<Rightarrow> ae_deckBGainNode s)"

definition ae_setGainNode :: "deck_id \<Rightarrow> gain_node option \<Rightarrow> audio_engine \<Rightarrow> audio_engine" where
  "ae_setGainNode d g s =
     (case d of A \<Rightarrow> s\<lparr>ae_deckAGainNode := g\<rparr> | B \<Rightarrow> s\<lparr>ae_deckBGainNode := g\<rparr>)"

definition ae_crossfaderGain :: "deck_id \<Rightarrow> audio_engine \<Rightarrow> gain_node option" where
  "ae_crossfaderGain d s = (case d of A \<Rightarrow> ae_crossfaderGainA s | B \<Rightarrow> ae_crossfaderGainB s)"

text \<open>The field initialisers of the class, before \<open>initializeAudioContext\<close> has run.\<close>

definition ae_initialDeck :: "deck_id \<Rightarrow> deck_audio_state" where
  "ae_initialDeck d =
     \<lparr>dk_id = d, dk_audioTrack = None, dk_isPlaying = False, dk_position = 0,
      dk_volume = 0.75, dk_startTime = 0, dk_pauseTime = 0\<rparr>"

definition ae_fields :: audio_engine where
  "ae_fields =
     \<lparr>ae_audioContext = None, ae_masterGainNode = None, ae_deckAGainNode = None,
      ae_deckBGainNode = None, ae_crossfaderGainA = None, ae_crossfaderGainB = None,
      ae_deckASource = None, ae_deckBSource = None,
      ae_deckAState = ae_initialDeck A, ae_deckBState = ae_initialDeck B,
      ae_crossfaderPosition = 0.5, ae_masterVolume = 0.8,
      ae_nodes = (\<lambda>_. createBufferSource), ae_nextNode = 0\<rparr>"

text \<open>\<open>updateCrossfader\<close>: the equal-power curve, written to the two crossfader gains.\<close>

definition ae_updateCrossfader :: "real \<Rightarrow> audio_engine \<Rightarrow> audio_engine" where
  "ae_updateCrossfader position s =
     (case (ae_crossfaderGainA s, ae_crossfaderGainB s, ae_audioContext s) of
        (Some ga, Some gb, Some c) \<Rightarrow>
          (let gainA = cos ((position * pi) / 2);
               gainB = sin ((position * pi) / 2)
           in s\<lparr>ae_crossfaderGainA := Some (setTargetAtTime gainA (ctx_currentTime c) 0.01 ga),
                ae_crossfaderGainB := Some (setTargetAtTime gainB (ctx_currentTime c) 0.01 gb)\<rparr>)
      | _ \<Rightarrow> s)"

definition ae_setCrossfader :: "real \<Rightarrow> audio_engine \<Rightarrow> audio_engine" where
  "ae_setCrossfader position s =
     (let p = max 0 (min 1 position)
      in ae_updateCrossfader p (s\<lparr>ae_crossfaderPosition := p\<rparr>))"

text \<open>
  \<open>setupAudioGraph\<close> and \<open>initializeAudioContext\<close>. Outside a browser, and when the
  context cannot be constructed, the engine keeps its field initialisers. The new
  context starts at clock value 0; \<open>suspended\<close> says whether the browser holds it
  suspended until a user gesture.
\<close>

definition ae_setupAudioGraph :: "audio_engine \<Rightarrow> audio_engine" where
  "ae_setupAudioGraph s =
     (case ae_audioContext s of
        None \<Rightarrow> s
      | Some c \<Rightarrow>
          ae_updateCrossfader (ae_crossfaderPosition s)
            (s\<lparr>ae_masterGainNode := Some (createGain\<lparr>gain_value := ae_masterVolume s\<rparr>),
               ae_deckAGainNode := Some (createGain\<lparr>gain_value := dk_volume (ae_deckAState s)\<rparr>),
               ae_deckBGainNode := Some (createGain\<lparr>gain_value := dk_volume (ae_deckBState s)\<rparr>),
               ae_crossfaderGainA := Some createGain,
               ae_crossfaderGainB := Some createGain\<rparr>))"

definition ae_initializeAudioContext :: "bool \<Rightarrow> bool \<Rightarrow> audio_engine \<Rightarrow> audio_engine" where
  "ae_initializeAudioContext browser suspended s =
     (if \<not> browser then s
      else ae_setupAudioGraph
             (s\<lparr>ae_audioContext := Some \<lparr>ctx_currentTime = 0, ctx_suspended = suspended\<rparr>\<rparr>))"

definition ae_constructor :: "bool \<Rightarrow> bool \<Rightarrow> audio_engine" where
  "ae_constructor browser suspended = ae_initializeAudioContext browser suspended ae_fields"

text \<open>\<open>stopDeck\<close>. The \<open>try\<close> around \<open>source.stop ()\<close> swallows its exception.\<close>

definition ae_tryStop :: "nat \<Rightarrow> audio_engine \<Rightarrow> audio_engine" where
  "ae_tryStop n s =
     (case node_stop (ae_nodes s n) of
        None \<Rightarrow> s
      | Some n' \<Rightarrow> s\<lparr>ae_nodes := (ae_nodes s)(n := n')\<rparr>)"

definition ae_stopDeck :: "deck_id \<Rightarrow> audio_engine \<Rightarrow> audio_engine" where
  "ae_stopDeck d s =
     (let deckState = ae_deckState d s in
      case (if dk_isPlaying deckState then ae_source d s else None) of
        None \<Rightarrow> ae_setDeckState d (deckState\<lparr>dk_position := 0, dk_isPlaying := False\<rparr>) s
      | Some n \<Rightarrow>
          ae_setSource d None
            (ae_setDeckState d
               (deckState\<lparr>dk_isPlaying := False, dk_position := 0,
                           dk_startTime := 0, dk_pauseTime := 0\<rparr>)
               (ae_tryStop n s)))"

text \<open>
  The track that \<open>loadAudioFile\<close> returns for a decoded buffer; \<open>trackId\<close> and \<open>url\<close> are
  what \<open>Date.now\<close> and \<open>URL.createObjectURL\<close> produced.
\<close>

definition ae_loadAudioFile :: "string \<Rightarrow> string \<Rightarrow> audio_buffer \<Rightarrow> ae_track" where
  "ae_loadAudioFile trackId url audioBuffer =
     \<lparr>et_id = trackId, et_audioBuffer = Some audioBuffer, et_audioUrl = Some url,
      et_duration = buf_duration audioBuffer, et_isLoaded = True\<rparr>"

text \<open>\<open>loadTrackToDeck\<close>.\<close>

definition ae_loadTrackToDeck :: "ae_track \<Rightarrow> deck_id \<Rightarrow> audio_engine \<Rightarrow> audio_engine" where
  "ae_loadTrackToDeck audioTrack d s =
     (let s1 = (if dk_isPlaying (ae_deckState d s) then ae_stopDeck d s else s)
      in ae_setDeckState d
           ((ae_deckState d s1)\<lparr>dk_audioTrack := Some audioTrack, dk_position := 0\<rparr>) s1)"

text \<open>
  \<open>playDeck\<close>. The result is the boolean the promise resolves to. A suspended context
  is resumed before the deck is looked at. The exceptions caught by the \<open>try\<close> are the
  missing gain nodes (the new node is then not stored) and those of \<open>source.start\<close>
  (the node is then already stored in the deck's source field).
\<close>

definition ae_playDeck :: "deck_id \<Rightarrow> audio_engine \<Rightarrow> bool \<times> audio_engine" where
  "ae_playDeck d s =
     (case (ae_audioContext s, ae_masterGainNode s) of
        (Some c0, Some _) \<Rightarrow>
          (let c = c0\<lparr>ctx_suspended := False\<rparr>;
               s1 = s\<lparr>ae_audioContext := Some c\<rparr>;
               deckState = ae_deckState d s1
           in case Option.bind (dk_audioTrack deckState) et_audioBuffer of
                None \<Rightarrow> (False, s1)
              | Some buffer \<Rightarrow>
                  if dk_isPlaying deckState then (True, s1)
                  else
                    (let n = ae_nextNode s1;
                         source = createBufferSource\<lparr>sn_buffer := Some buffer\<rparr>;
                         s2 = s1\<lparr>ae_nodes := (ae_nodes s1)(n := source),
                                 ae_nextNode := Suc n\<rparr>
                     in case (ae_gainNode d s2, ae_crossfaderGain d s2) of
                          (Some _, Some _) \<Rightarrow>
                            (let s3 = ae_setSource d (Some n) s2;
                                 startTime = ctx_currentTime c
                             in case node_start (ctx_currentTime c) startTime
                                       (dk_position deckState) source of
                                  None \<Rightarrow> (False, s3)
                                | Some started \<Rightarrow>
                                    (True,
                                     ae_setDeckState d
                                       (deckState\<lparr>dk_isPlaying := True,
                                          dk_startTime := startTime - dk_position deckState\<rparr>)
                                       (s3\<lparr>ae_nodes :=
                                            (ae_nodes s3)(n := started\<lparr>sn_onended := Some d\<rparr>)\<rparr>)))
                        | _ \<Rightarrow> (False, s2)))
      | _ \<Rightarrow> (False, s))"

text \<open>\<open>pauseDeck\<close>.\<close>

definition ae_pauseDeck :: "deck_id \<Rightarrow> audio_engine \<Rightarrow> audio_engine" where
  "ae_pauseDeck d s =
     (let deckState = ae_deckState d s in
      case (if dk_isPlaying deckState then ae_source d s else None, ae_audioContext s) of
        (Some n, Some c) \<Rightarrow>
          (let currentTime = ctx_currentTime c
           in ae_setSource d None
                (ae_setDeckState d
                   (deckState\<lparr>dk_position := currentTime - dk_startTime deckState,
                               dk_pauseTime := currentTime, dk_isPlaying := False\<rparr>)
                   (ae_tryStop n s)))
      | _ \<Rightarrow> s)"

text \<open>
  The \<open>onended\<close> handler that \<open>playDeck\<close> installs, run when the platform dispatches
  the \<open>ended\<close> event of node \<open>n\<close>.
\<close>

definition ae_onended :: "nat \<Rightarrow> audio_engine \<Rightarrow> audio_engine" where
  "ae_onended n s =
     (let s1 = s\<lparr>ae_nodes := (ae_nodes s)(n := (ae_nodes s n)\<lparr>sn_dispatched := True\<rparr>)\<rparr>
      in case sn_onended (ae_nodes s n) of
           None \<Rightarrow> s1
         | Some d \<Rightarrow> if dk_isPlaying (ae_deckState d s1) then ae_stopDeck d s1 else s1)"

text \<open>
  The gain setters. \<open>this.audioContext!.currentTime\<close> raises a TypeError when the
  context is missing; it is evaluated before anything is written.
\<close>

definition ae_setDeckVolume :: "deck_id \<Rightarrow> real \<Rightarrow> audio_engine \<Rightarrow> js_error + audio_engine" where
  "ae_setDeckVolume d volume s =
     (case ae_gainNode d s of
        None \<Rightarrow> Inr s
      | Some gainNode \<Rightarrow>
          (let clampedVolume = max 0 (min 1 volume)
           in case ae_audioContext s of
                None \<Rightarrow> Inl TypeError
              | Some c \<Rightarrow>
                  Inr (ae_setDeckState d ((ae_deckState d s)\<lparr>dk_volume := clampedVolume\<rparr>)
                        (ae_setGainNode d
                           (Some (setTargetAtTime clampedVolume (ctx_currentTime c) 0.01 gainNode))
                           s))))"

definition ae_setMasterVolume :: "real \<Rightarrow> audio_engine \<Rightarrow> js_error + audio_engine" where
  "ae_setMasterVolume volume s =
     (case ae_masterGainNode s of
        None \<Rightarrow> Inr s
      | Some masterGainNode \<Rightarrow>
          (let clampedVolume = max 0 (min 1 volume)
           in case ae_audioContext s of
                None \<Rightarrow> Inl TypeError
              | Some c \<Rightarrow>
                  Inr (s\<lparr>ae_masterGainNode :=
                           Some (setTargetAtTime clampedVolume (ctx_currentTime c) 0.01
                                   masterGainNode),
                         ae_masterVolume := clampedVolume\<rparr>)))"

text \<open>The state in which a call leaves the engine: unchanged when it raised.\<close>

definition ae_after :: "audio_engine \<Rightarrow> js_error + audio_engine \<Rightarrow> audio_engine" where
  "ae_after s r = (case r of Inl _ \<Rightarrow> s | Inr s' \<Rightarrow> s')"

text \<open>\<open>getCurrentPosition\<close> and \<open>getDeckState\<close>; the latter writes the position back.\<close>

definition ae_getCurrentPosition :: "deck_id \<Rightarrow> audio_engine \<Rightarrow> real" where
  "ae_getCurrentPosition d s =
     (let deckState = ae_deckState d s in
      case (if dk_isPlaying deckState then ae_audioContext s else None) of
        None \<Rightarrow> dk_position deckState
      | Some c \<Rightarrow> ctx_currentTime c - dk_startTime deckState)"

definition ae_getDeckState :: "deck_id \<Rightarrow> audio_engine \<Rightarrow> deck_audio_state \<times> audio_engine" where
  "ae_getDeckState d s =
     (let deckState = ae_deckState d s in
      case (if dk_isPlaying deckState then ae_audioContext s else None) of
        None \<Rightarrow> (deckState, s)
      | Some c \<Rightarrow>
          (let deckState' = deckState\<lparr>dk_position := ctx_currentTime c - dk_startTime deckState\<rparr>
           in (deckState', ae_setDeckState d deckState' s)))"

text \<open>The hardware clock of the engine's context advances.\<close>

definition ae_advance :: "real \<Rightarrow> audio_engine \<Rightarrow> audio_engine" where
  "ae_advance dt s = s\<lparr>ae_audioContext := map_option (ctx_advance dt) (ae_audioContext s)\<rparr>"

section \<open>AudioManager: one state object per loaded track\<close>

text \<open>
  \<open>AudioManager\<close> keeps its \<open>AudioTrack\<close> objects in a \<open>Map\<close> from track ids. A load
  under an id that is already present replaces the entry by a new object, while the
  \<open>onended\<close> closure of a source created earlier still holds the old object: the objects
  therefore live in a store, and the map and the closures hold addresses. The map is an
  association list in insertion order, the order in which \<open>forEach\<close> visits it.
  The callbacks registered with \<open>setCallbacks\<close> are modelled by whether they are set and
  by the list of their invocations, oldest first.
\<close>

record am_track =
  tr_id :: string
  tr_audioBuffer :: audio_buffer
  tr_source :: "nat option"
  tr_gainNode :: "gain_node option"
  tr_isPlaying :: bool
  tr_startTime :: real
  tr_pausedAt :: real
  tr_duration :: real
  tr_currentTime :: real

record audio_manager =
  am_audioContext :: "audio_context option"
  am_masterGain :: "gain_node option"
  am_deckAGain :: "gain_node option"
  am_deckBGain :: "gain_node option"
  am_crossfaderGain :: "gain_node option"
  am_tracks :: "(string \<times> nat) list"
  am_objects :: "nat \<rightharpoonup> am_track"
  am_nextObject :: nat
  am_onPositionUpdate :: bool
  am_onTrackEnd :: bool
  am_positionUpdates :: "(string \<times> real \<times> real) list"
  am_trackEnds :: "deck_id list"
  am_nodes :: "nat \<Rightarrow> (nat \<times> deck_id) source_node"
  am_nextNode :: nat

definition am_fields :: audio_manager where
  "am_fields =
     \<lparr>am_audioContext = None, am_masterGain = None, am_deckAGain = None,
      am_deckBGain = None, am_crossfaderGain = None, am_tracks = [],
      am_objects = Map.empty, am_nextObject = 0,
      am_onPositionUpdate = False, am_onTrackEnd = False,
      am_positionUpdates = [], am_trackEnds = [],
      am_nodes = (\<lambda>_. createBufferSource), am_nextNode = 0\<rparr>"

text \<open>\<open>this.tracks.get (trackId)\<close>: the address and the object, or nothing.\<close>

definition am_get :: "audio_manager \<Rightarrow> string \<Rightarrow> (nat \<times> am_track) option" where
  "am_get s trackId =
     (case map_of (am_tracks s) trackId of
        None \<Rightarrow> None
      | Some r \<Rightarrow> (case am_objects s r of None \<Rightarrow> None | Some track \<Rightarrow> Some (r, track)))"

definition am_deckGain :: "deck_id \<Rightarrow> audio_manager \<Rightarrow> gain_node option" where
  "am_deckGain d s = (case d of A \<Rightarrow> am_deckAGain s | B \<Rightarrow> am_deckBGain s)"

definition am_setDeckGain :: "deck_id \<Rightarrow> gain_node option \<Rightarrow> audio_manager \<Rightarrow> audio_manager" where
  "am_setDeckGain d g s =
     (case d of A \<Rightarrow> s\<lparr>am_deckAGain := g\<rparr> | B \<Rightarrow> s\<lparr>am_deckBGain := g\<rparr>)"

text \<open>\<open>x || 0\<close> on a number.\<close>

definition or_zero :: "real \<Rightarrow> real" where
  "or_zero x = (if x = 0 then 0 else x)"

text \<open>
  \<open>source.stop (); source.disconnect ()\<close> on the node at address \<open>n\<close>; \<open>None\<close> is the
  exception of \<open>stop\<close>.
\<close>

definition am_stopNode :: "nat \<Rightarrow> audio_manager \<Rightarrow> audio_manager option" where
  "am_stopNode n s =
     (case node_stop (am_nodes s n) of
        None \<Rightarrow> None
      | Some n' \<Rightarrow> Some (s\<lparr>am_nodes := (am_nodes s)(n := n')\<rparr>))"

definition am_stopSource :: "am_track \<Rightarrow> audio_manager \<Rightarrow> audio_manager option" where
  "am_stopSource track s =
     (case tr_source track of None \<Rightarrow> Some s | Some n \<Rightarrow> am_stopNode n s)"

text \<open>
  \<open>loadTrack\<close> (and \<open>loadTrackFromURL\<close>, which differs only in where the bytes come
  from). \<open>decoded\<close> is the outcome of \<open>decodeAudioData\<close>: the buffer, or nothing when
  decoding raised.
\<close>

definition am_loadTrack :: "audio_buffer option \<Rightarrow> string \<Rightarrow> audio_manager \<Rightarrow> bool \<times> audio_manager" where
  "am_loadTrack decoded trackId s =
     (case am_audioContext s of
        None \<Rightarrow> (False, s)
      | Some _ \<Rightarrow>
          (case decoded of
             None \<Rightarrow> (False, s)
           | Some audioBuffer \<Rightarrow>
               (let r = am_nextObject s;
                    audioTrack =
                      \<lparr>tr_id = trackId, tr_audioBuffer = audioBuffer, tr_source = None,
                       tr_gainNode = None, tr_isPlaying = False, tr_startTime = 0,
                       tr_pausedAt = 0, tr_duration = buf_duration audioBuffer,
                       tr_currentTime = 0\<rparr>
                in (True,
                    s\<lparr>am_objects := (am_objects s)(r \<mapsto> audioTrack),
                      am_nextObject := Suc r,
                      am_tracks := AList.update trackId r (am_tracks s)\<rparr>))))"

text \<open>
  \<open>playTrack\<close>. The exceptions caught by the \<open>try\<close> are those of \<open>stop\<close> on the previous
  source, of \<open>connect\<close> on a missing deck gain and of \<open>start\<close>; each leaves what was
  written before it.
\<close>

definition am_playTrack :: "string \<Rightarrow> deck_id \<Rightarrow> audio_manager \<Rightarrow> bool \<times> audio_manager" where
  "am_playTrack trackId deckId s =
     (case am_audioContext s of
        None \<Rightarrow> (False, s)
      | Some c0 \<Rightarrow>
          (case am_get s trackId of
             None \<Rightarrow> (False, s)
           | Some (r, track) \<Rightarrow>
               (let c = c0\<lparr>ctx_suspended := False\<rparr>;
                    s1 = s\<lparr>am_audioContext := Some c\<rparr>
                in case am_stopSource track s1 of
                     None \<Rightarrow> (False, s1)
                   | Some s2 \<Rightarrow>
                       (let n = am_nextNode s2;
                            source = createBufferSource\<lparr>sn_buffer := Some (tr_audioBuffer track)\<rparr>;
                            track1 = track\<lparr>tr_source := Some n, tr_gainNode := Some createGain\<rparr>;
                            s3 = s2\<lparr>am_nodes := (am_nodes s2)(n := source),
                                    am_nextNode := Suc n,
                                    am_objects := (am_objects s2)(r \<mapsto> track1)\<rparr>
                        in case am_deckGain deckId s3 of
                             None \<Rightarrow> (False, s3)
                           | Some _ \<Rightarrow>
                               (let track2 = track1\<lparr>tr_gainNode :=
                                                Some (createGain\<lparr>gain_value := 1.0\<rparr>)\<rparr>;
                                    source2 = source\<lparr>sn_onended := Some (r, deckId)\<rparr>;
                                    offset = or_zero (tr_pausedAt track)
                                in case node_start (ctx_currentTime c) 0 offset source2 of
                                     None \<Rightarrow>
                                       (False,
                                        s3\<lparr>am_nodes := (am_nodes s3)(n := source2),
                                           am_objects := (am_objects s3)(r \<mapsto> track2)\<rparr>)
                                   | Some started \<Rightarrow>
                                       (True,
                                        s3\<lparr>am_nodes := (am_nodes s3)(n := started),
                                           am_objects := (am_objects s3)(r \<mapsto>
                                             track2\<lparr>tr_startTime := ctx_currentTime c - offset,
                                                    tr_isPlaying := True,
                                                    tr_pausedAt := 0\<rparr>)\<rparr>))))))"

text \<open>\<open>pauseTrack\<close> and \<open>stopTrack\<close>.\<close>

definition am_pauseTrack :: "string \<Rightarrow> audio_manager \<Rightarrow> bool \<times> audio_manager" where
  "am_pauseTrack trackId s =
     (case (am_get s trackId, am_audioContext s) of
        (Some (r, track), Some c) \<Rightarrow>
          if \<not> tr_isPlaying track then (False, s)
          else
            (case am_stopSource track s of
               None \<Rightarrow> (False, s)
             | Some s1 \<Rightarrow>
                 (let pausedAt = ctx_currentTime c - tr_startTime track
                  in (True,
                      s1\<lparr>am_objects := (am_objects s1)(r \<mapsto>
                           track\<lparr>tr_pausedAt := pausedAt, tr_isPlaying := False,
                                 tr_currentTime := pausedAt\<rparr>)\<rparr>)))
      | _ \<Rightarrow> (False, s))"

definition am_stopTrack :: "string \<Rightarrow> audio_manager \<Rightarrow> bool \<times> audio_manager" where
  "am_stopTrack trackId s =
     (case am_get s trackId of
        None \<Rightarrow> (False, s)
      | Some (r, track) \<Rightarrow>
          (case am_stopSource track s of
             None \<Rightarrow> (False, s)
           | Some s1 \<Rightarrow>
               (True,
                s1\<lparr>am_objects := (am_objects s1)(r \<mapsto>
                     track\<lparr>tr_isPlaying := False, tr_pausedAt := 0,
                           tr_currentTime := 0, tr_startTime := 0\<rparr>)\<rparr>)))"

text \<open>
  The \<open>onended\<close> handler that \<open>playTrack\<close> installs, run when the platform dispatches
  the \<open>ended\<close> event of node \<open>n\<close>. It holds the track object and the deck id.
\<close>

definition am_onended :: "nat \<Rightarrow> audio_manager \<Rightarrow> audio_manager" where
  "am_onended n s =
     (let s1 = s\<lparr>am_nodes := (am_nodes s)(n := (am_nodes s n)\<lparr>sn_dispatched := True\<rparr>)\<rparr>
      in case sn_onended (am_nodes s n) of
           None \<Rightarrow> s1
         | Some (r, deckId) \<Rightarrow>
             (case am_objects s1 r of
                None \<Rightarrow> s1
              | Some track \<Rightarrow>
                  if tr_isPlaying track then
                    (let s2 = s1\<lparr>am_objects := (am_objects s1)(r \<mapsto>
                                  track\<lparr>tr_isPlaying := False, tr_currentTime := 0,
                                        tr_pausedAt := 0\<rparr>)\<rparr>
                     in if am_onTrackEnd s2
                        then s2\<lparr>am_trackEnds := am_trackEnds s2 @ [deckId]\<rparr>
                        else s2)
                  else s1))"

text \<open>The gain setters.\<close>

definition am_setDeckVolume :: "deck_id \<Rightarrow> real \<Rightarrow> audio_manager \<Rightarrow> audio_manager" where
  "am_setDeckVolume deckId volume s =
     (case am_deckGain deckId s of
        None \<Rightarrow> s
      | Some gain \<Rightarrow>
          (let currentTime =
                 (case am_audioContext s of None \<Rightarrow> 0 | Some c \<Rightarrow> or_zero (ctx_currentTime c))
           in am_setDeckGain deckId
                (Some (setTargetAtTime (max 0 (min 1 volume)) currentTime 0.01 gain)) s))"

definition am_setMasterVolume :: "real \<Rightarrow> audio_manager \<Rightarrow> audio_manager" where
  "am_setMasterVolume volume s =
     (case (am_masterGain s, am_audioContext s) of
        (Some masterGain, Some c) \<Rightarrow>
          s\<lparr>am_masterGain :=
              Some (setTargetAtTime (max 0 (min 1 volume)) (ctx_currentTime c) 0.01 masterGain)\<rparr>
      | _ \<Rightarrow> s)"

definition am_setCrossfader :: "real \<Rightarrow> audio_manager \<Rightarrow> audio_manager" where
  "am_setCrossfader position s =
     (case (am_deckAGain s, am_deckBGain s, am_audioContext s) of
        (Some deckAGain, Some deckBGain, Some c) \<Rightarrow>
          (let currentTime = ctx_currentTime c;
               clampedPosition = max (- 1) (min 1 position);
               gainA = (if clampedPosition \<le> 0 then 1 else 1 - clampedPosition);
               gainB = (if clampedPosition \<ge> 0 then 1 else 1 + clampedPosition)
           in s\<lparr>am_deckAGain := Some (setTargetAtTime gainA currentTime 0.01 deckAGain),
                am_deckBGain := Some (setTargetAtTime gainB currentTime 0.01 deckBGain)\<rparr>)
      | _ \<Rightarrow> s)"

text \<open>\<open>getTrackInfo\<close> and \<open>getCurrentTime\<close>.\<close>

definition am_getTrackInfo :: "string \<Rightarrow> audio_manager \<Rightarrow> am_track option" where
  "am_getTrackInfo trackId s = map_option snd (am_get s trackId)"

definition am_getCurrentTime :: "string \<Rightarrow> audio_manager \<Rightarrow> real" where
  "am_getCurrentTime trackId s =
     (case (am_get s trackId, am_audioContext s) of
        (Some (r, track), Some c) \<Rightarrow>
          if tr_isPlaying track then ctx_currentTime c - tr_startTime track
          else tr_pausedAt track
      | _ \<Rightarrow> 0)"

text \<open>
  \<open>seekTo\<close>. The call of \<open>playTrack\<close> is not awaited; it runs to its end within the
  call unless the context is suspended, which a playing track excludes.
\<close>

definition am_seekTo :: "string \<Rightarrow> real \<Rightarrow> deck_id \<Rightarrow> audio_manager \<Rightarrow> bool \<times> audio_manager" where
  "am_seekTo trackId position deckId s =
     (case am_get s trackId of
        None \<Rightarrow> (False, s)
      | Some (r, track) \<Rightarrow>
          (let wasPlaying = tr_isPlaying track;
               s1 = snd (am_stopTrack trackId s);
               s2 = (case am_objects s1 r of
                       None \<Rightarrow> s1
                     | Some t \<Rightarrow>
                         s1\<lparr>am_objects := (am_objects s1)(r \<mapsto>
                              t\<lparr>tr_pausedAt := max 0 (min (tr_duration t) position)\<rparr>)\<rparr>);
               s3 = (if wasPlaying then snd (am_playTrack trackId deckId s2) else s2)
           in (True, s3)))"

text \<open>
  One pass of \<open>updatePositions\<close>, the body that \<open>startPositionTracking\<close> reschedules on
  every animation frame: \<open>am_updateTrack\<close> is the callback of \<open>forEach\<close>.
\<close>

definition am_updateTrack :: "string \<times> nat \<Rightarrow> audio_manager \<Rightarrow> audio_manager" where
  "am_updateTrack entry s =
     (case entry of (trackId, r) \<Rightarrow>
        (case (am_objects s r, am_audioContext s) of
           (Some track, Some c) \<Rightarrow>
             if tr_isPlaying track then
               (let currentTime = ctx_currentTime c - tr_startTime track;
                    s1 = s\<lparr>am_objects := (am_objects s)(r \<mapsto>
                             track\<lparr>tr_currentTime := currentTime\<rparr>)\<rparr>
                in if currentTime \<ge> tr_duration track then snd (am_stopTrack trackId s1)
                   else if am_onPositionUpdate s1
                   then s1\<lparr>am_positionUpdates :=
                            am_positionUpdates s1 @ [(trackId, currentTime, tr_duration track)]\<rparr>
                   else s1)
             else s
         | _ \<Rightarrow> s))"

definition am_updatePositions :: "audio_manager \<Rightarrow> audio_manager" where
  "am_updatePositions s = fold am_updateTrack (am_tracks s) s"

text \<open>
  \<open>initializeAudioContext\<close>, with the outcome of the environment checks as arguments.
  The new context starts at clock value 0 and is running once \<open>resume\<close> has resolved;
  \<open>startPositionTracking\<close> then runs the first pass of \<open>updatePositions\<close>.
\<close>

definition am_initializeAudioContext :: "bool \<Rightarrow> bool \<Rightarrow> audio_manager \<Rightarrow> bool \<times> audio_manager" where
  "am_initializeAudioContext browser supported s =
     (if \<not> browser then (False, s)
      else if \<not> supported then (False, s)
      else (True,
            am_updatePositions
              (s\<lparr>am_audioContext := Some \<lparr>ctx_currentTime = 0, ctx_suspended = False\<rparr>,
                 am_masterGain := Some (createGain\<lparr>gain_value := 0.8\<rparr>),
                 am_deckAGain := Some (createGain\<lparr>gain_value := 0.75\<rparr>),
                 am_deckBGain := Some (createGain\<lparr>gain_value := 0.75\<rparr>),
                 am_crossfaderGain := Some createGain\<rparr>)))"

text \<open>\<open>setCallbacks\<close>.\<close>

definition am_setCallbacks :: "audio_manager \<Rightarrow> audio_manager" where
  "am_setCallbacks s = s\<lparr>am_onPositionUpdate := True, am_onTrackEnd := True\<rparr>"

text \<open>The hardware clock of the manager's context advances.\<close>

definition am_advance :: "real \<Rightarrow> audio_manager \<Rightarrow> audio_manager" where
  "am_advance dt s = s\<lparr>am_audioContext := map_option (ctx_advance dt) (am_audioContext s)\<rparr>"

section \<open>Runs of the engines\<close>

text \<open>
  A run interleaves the calls of the application with what the platform does on its
  own: the hardware clock advances, a pending \<open>resume\<close> resolves, and the \<open>ended\<close>
  event of a source node is dispatched. The clock never runs backwards, and an \<open>ended\<close>
  event is dispatched only for a node that exists, at most once, after the node was
  stopped or has rendered its buffer to the end.
\<close>

definition ae_resumed :: "audio_engine \<Rightarrow> audio_engine" where
  "ae_resumed s =
     s\<lparr>ae_audioContext := map_option (\<lambda>c. c\<lparr>ctx_suspended := False\<rparr>) (ae_audioContext s)\<rparr>"

definition ae_can_end :: "nat \<Rightarrow> audio_engine \<Rightarrow> bool" where
  "ae_can_end n s =
     (case ae_audioContext s of
        None \<Rightarrow> False
      | Some c \<Rightarrow> n < ae_nextNode s \<and> node_can_end (ctx_currentTime c) (ae_nodes s n))"

datatype ae_call =
    AE_LoadTrackToDeck ae_track deck_id
  | AE_PlayDeck deck_id
  | AE_PauseDeck deck_id
  | AE_StopDeck deck_id
  | AE_SetDeckVolume deck_id real
  | AE_SetMasterVolume real
  | AE_SetCrossfader real
  | AE_GetDeckState deck_id
  | AE_Advance real
  | AE_Resumed
  | AE_Ended nat

fun ae_step :: "ae_call \<Rightarrow> audio_engine \<Rightarrow> audio_engine" where
  "ae_step (AE_LoadTrackToDeck audioTrack d) s = ae_loadTrackToDeck audioTrack d s"
| "ae_step (AE_PlayDeck d) s = snd (ae_playDeck d s)"
| "ae_step (AE_PauseDeck d) s = ae_pauseDeck d s"
| "ae_step (AE_StopDeck d) s = ae_stopDeck d s"
| "ae_step (AE_SetDeckVolume d v) s = ae_after s (ae_setDeckVolume d v s)"
| "ae_step (AE_SetMasterVolume v) s = ae_after s (ae_setMasterVolume v s)"
| "ae_step (AE_SetCrossfader p) s = ae_setCrossfader p s"
| "ae_step (AE_GetDeckState d) s = snd (ae_getDeckState d s)"
| "ae_step (AE_Advance dt) s = ae_advance dt s"
| "ae_step AE_Resumed s = ae_resumed s"
| "ae_step (AE_Ended n) s = ae_onended n s"

fun ae_enabled :: "ae_call \<Rightarrow> audio_engine \<Rightarrow> bool" where
  "ae_enabled (AE_Advance dt) s = (0 \<le> dt)"
| "ae_enabled (AE_Ended n) s = ae_can_end n s"
| "ae_enabled _ s = True"

inductive ae_reachable :: "audio_engine \<Rightarrow> bool" where
  ae_start: "ae_reachable (ae_constructor browser suspended)"
| ae_next: "ae_reachable s \<Longrightarrow> ae_enabled c s \<Longrightarrow> ae_reachable (ae_step c s)"

definition ae_run :: "ae_call list \<Rightarrow> audio_engine \<Rightarrow> audio_engine" where
  "ae_run cs s = fold ae_step cs s"

fun ae_valid :: "ae_call list \<Rightarrow> audio_engine \<Rightarrow> bool" where
  "ae_valid [] s = True"
| "ae_valid (c # cs) s = (ae_enabled c s \<and> ae_valid cs (ae_step c s))"

text \<open>
  The application initialises the manager once, before it loads a track; a buffer that
  the decoder returns has a duration that is not negative.
\<close>

definition am_can_end :: "nat \<Rightarrow> audio_manager \<Rightarrow> bool" where
  "am_can_end n s =
     (case am_audioContext s of
        None \<Rightarrow> False
      | Some c \<Rightarrow> n < am_nextNode s \<and> node_can_end (ctx_currentTime c) (am_nodes s n))"

datatype am_call =
    AM_Initialize bool bool
  | AM_SetCallbacks
  | AM_LoadTrack "audio_buffer option" string
  | AM_PlayTrack string deck_id
  | AM_PauseTrack string
  | AM_StopTrack string
  | AM_SeekTo string real deck_id
  | AM_SetDeckVolume deck_id real
  | AM_SetMasterVolume real
  | AM_SetCrossfader real
  | AM_UpdatePositions
  | AM_Advance real
  | AM_Ended nat

fun am_step :: "am_call \<Rightarrow> audio_manager \<Rightarrow> audio_manager" where
  "am_step (AM_Initialize browser supported) s =
     snd (am_initializeAudioContext browser supported s)"
| "am_step AM_SetCallbacks s = am_setCallbacks s"
| "am_step (AM_LoadTrack decoded trackId) s = snd (am_loadTrack decoded trackId s)"
| "am_step (AM_PlayTrack trackId d) s = snd (am_playTrack trackId d s)"
| "am_step (AM_PauseTrack trackId) s = snd (am_pauseTrack trackId s)"
| "am_step (AM_StopTrack trackId) s = snd (am_stopTrack trackId s)"
| "am_step (AM_SeekTo trackId position d) s = snd (am_seekTo trackId position d s)"
| "am_step (AM_SetDeckVolume d v) s = am_setDeckVolume d v s"
| "am_step (AM_SetMasterVolume v) s = am_setMasterVolume v s"
| "am_step (AM_SetCrossfader p) s = am_setCrossfader p s"
| "am_step AM_UpdatePositions s = am_updatePositions s"
| "am_step (AM_Advance dt) s = am_advance dt s"
| "am_step (AM_Ended n) s = am_onended n s"

fun am_enabled :: "am_call \<Rightarrow> audio_manager \<Rightarrow> bool" where
  "am_enabled (AM_Initialize browser supported) s = (am_audioContext s = None)"
| "am_enabled (AM_LoadTrack decoded trackId) s =
     (case decoded of None \<Rightarrow> True | Some b \<Rightarrow> 0 \<le> buf_duration b)"
| "am_enabled (AM_Advance dt) s = (0 \<le> dt)"
| "am_enabled (AM_Ended n) s = am_can_end n s"
| "am_enabled _ s = True"

inductive am_reachable :: "audio_manager \<Rightarrow> bool" where
  am_start: "am_reachable am_fields"
| am_next: "am_reachable s \<Longrightarrow> am_enabled c s \<Longrightarrow> am_reachable (am_step c s)"

definition am_run :: "am_call list \<Rightarrow> audio_manager \<Rightarrow> audio_manager" where
  "am_run cs s = fold am_step cs s"

fun am_valid :: "am_call list \<Rightarrow> audio_manager \<Rightarrow> bool" where
  "am_valid [] s = True"
| "am_valid (c # cs) s = (am_enabled c s \<and> am_valid cs (am_step c s))"

section \<open>Invariants of the runs\<close>

text \<open>
  What every run of \<open>AudioEngine\<close> keeps: with a context, its clock is not negative
  and the whole gain graph exists; per deck, the source field is set exactly while the
  deck is playing, the position is not negative and is 0 while nothing is loaded, and a
  playing deck has a buffer, a running context and an anchor \<open>startTime\<close> that is not
  in the future.
\<close>

definition ae_graph_inv :: "audio_engine \<Rightarrow> bool" where
  "ae_graph_inv s =
     (case ae_audioContext s of
        None \<Rightarrow> True
      | Some c \<Rightarrow>
          0 \<le> ctx_currentTime c \<and> ae_masterGainNode s \<noteq> None \<and>
          ae_deckAGainNode s \<noteq> None \<and> ae_deckBGainNode s \<noteq> None \<and>
          ae_crossfaderGainA s \<noteq> None \<and> ae_crossfaderGainB s \<noteq> None)"

definition ae_deck_inv :: "deck_id \<Rightarrow> audio_engine \<Rightarrow> bool" where
  "ae_deck_inv d s =
     (let ds = ae_deckState d s in
        (ae_source d s \<noteq> None) = dk_isPlaying ds \<and>
        0 \<le> dk_position ds \<and>
        (dk_audioTrack ds = None \<longrightarrow> dk_position ds = 0 \<and> \<not> dk_isPlaying ds) \<and>
        (dk_isPlaying ds \<longrightarrow>
           Option.bind (dk_audioTrack ds) et_audioBuffer \<noteq> None \<and>
           (case ae_audioContext s of
              None \<Rightarrow> False
            | Some c \<Rightarrow> \<not> ctx_suspended c \<and> dk_startTime ds \<le> ctx_currentTime c)))"

definition ae_inv :: "audio_engine \<Rightarrow> bool" where
  "ae_inv s = (ae_graph_inv s \<and> ae_deck_inv A s \<and> ae_deck_inv B s)"

text \<open>
  What every run of \<open>AudioManager\<close> keeps: track objects exist only with a context,
  whose clock is not negative and whose deck gains exist; the map holds addresses of
  objects; and for every track object the duration and the paused position are not
  negative, a playing track has paused position 0, a source and an anchor that is not
  in the future, and the source it holds is a node that was started.
\<close>

definition am_track_inv :: "audio_manager \<Rightarrow> am_track \<Rightarrow> bool" where
  "am_track_inv s track =
     (0 \<le> tr_pausedAt track \<and> 0 \<le> tr_duration track \<and>
      (tr_isPlaying track \<longrightarrow>
         tr_pausedAt track = 0 \<and> tr_source track \<noteq> None \<and>
         (case am_audioContext s of
            None \<Rightarrow> False
          | Some c \<Rightarrow> tr_startTime track \<le> ctx_currentTime c)) \<and>
      (case tr_source track of
         None \<Rightarrow> True
       | Some n \<Rightarrow> n < am_nextNode s \<and> sn_status (am_nodes s n) \<noteq> Created))"

definition am_graph_inv :: "audio_manager \<Rightarrow> bool" where
  "am_graph_inv s =
     (case am_audioContext s of
        None \<Rightarrow> am_objects s = Map.empty \<and> am_tracks s = []
      | Some c \<Rightarrow> 0 \<le> ctx_currentTime c \<and> am_deckAGain s \<noteq> None \<and> am_deckBGain s \<noteq> None)"

definition am_inv :: "audio_manager \<Rightarrow> bool" where
  "am_inv s =
     (am_graph_inv s \<and>
      (\<forall>r track. am_objects s r = Some track \<longrightarrow> am_track_inv s track) \<and>
      (\<forall>trackId r. map_of (am_tracks s) trackId = Some r \<longrightarrow> am_objects s r \<noteq> None))"

text \<open>
  A later state extends an earlier one when its clock is not earlier, it has no fewer
  nodes, and every node that had been started still has.
\<close>

definition am_extends :: "audio_manager \<Rightarrow> audio_manager \<Rightarrow> bool" where
  "am_extends s s' =
     ((case am_audioContext s of
         None \<Rightarrow> True
       | Some c \<Rightarrow>
           (case am_audioContext s' of
              None \<Rightarrow> False
            | Some c' \<Rightarrow> ctx_currentTime c \<le> ctx_currentTime c')) \<and>
      am_nextNode s \<le> am_nextNode s' \<and>
      (\<forall>n<am_nextNode s.
         sn_status (am_nodes s n) \<noteq> Created \<longrightarrow> sn_status (am_nodes s' n) \<noteq> Created))"

section \<open>Observations used by the properties\<close>

text \<open>The target of the last \<open>setTargetAtTime\<close> on a gain node, if the node exists.\<close>

definition target_of :: "gain_node option \<Rightarrow> real option" where
  "target_of g = (case g of None \<Rightarrow> None | Some n \<Rightarrow> map_option fst (gain_target n))"

text \<open>
  The pair (gainA, gainB) that the crossfader setter computed: in \<open>AudioEngine\<close> the
  targets of the two crossfader gains, in \<open>AudioManager\<close> the targets of the two deck
  gains.
\<close>

definition ae_crossfaderGains :: "audio_engine \<Rightarrow> (real \<times> real) option" where
  "ae_crossfaderGains s =
     (case (target_of (ae_crossfaderGainA s), target_of (ae_crossfaderGainB s)) of
        (Some a, Some b) \<Rightarrow> Some (a, b)
      | _ \<Rightarrow> None)"

definition am_crossfaderGains :: "audio_manager \<Rightarrow> (real \<times> real) option" where
  "am_crossfaderGains s =
     (case (target_of (am_deckAGain s), target_of (am_deckBGain s)) of
        (Some a, Some b) \<Rightarrow> Some (a, b)
      | _ \<Rightarrow> None)"

definition power_sum :: "(real \<times> real) option \<Rightarrow> real option" where
  "power_sum g = map_option (\<lambda>(a, b). a\<^sup>2 + b\<^sup>2) g"

text \<open>A decoded stereo buffer of the given duration, for the scenarios.\<close>

definition buffer_of :: "real \<Rightarrow> audio_buffer" where
  "buffer_of d = \<lparr>buf_duration = d, buf_sampleRate = 44100, buf_numberOfChannels = 2\<rparr>"



text \<open>
  The starting points of the scenarios: an engine constructed in a browser with a track
  of duration \<open>d\<close> loaded to deck A, and a manager that was initialised, given its
  callbacks and a track \<open>t\<close> of duration \<open>d\<close>.
\<close>

definition ae_loaded :: "real \<Rightarrow> audio_engine" where
  "ae_loaded d =
     ae_loadTrackToDeck (ae_loadAudioFile ''track_1'' ''blob:1'' (buffer_of d)) A
       (ae_constructor True False)"

definition am_loaded :: "real \<Rightarrow> audio_manager" where
  "am_loaded d =
     am_run [AM_Initialize True True, AM_SetCallbacks, AM_LoadTrack (Some (buffer_of d)) ''t'']
       am_fields"

text \<open>
  Everything but the gains: the state with the automation targets of the gain nodes,
  the stored volumes and the stored crossfader position blanked.
\<close>

definition no_target :: "gain_node option \<Rightarrow> gain_node option" where
  "no_target g = map_option (\<lambda>n. n\<lparr>gain_target := None\<rparr>) g"

definition ae_transport :: "audio_engine \<Rightarrow> audio_engine" where
  "ae_transport s =
     s\<lparr>ae_masterGainNode := no_target (ae_masterGainNode s),
       ae_deckAGainNode := no_target (ae_deckAGainNode s),
       ae_deckBGainNode := no_target (ae_deckBGainNode s),
       ae_crossfaderGainA := no_target (ae_crossfaderGainA s),
       ae_crossfaderGainB := no_target (ae_crossfaderGainB s),
       ae_deckAState := (ae_deckAState s)\<lparr>dk_volume := 0\<rparr>,
       ae_deckBState := (ae_deckBState s)\<lparr>dk_volume := 0\<rparr>,
       ae_crossfaderPosition := 0,
       ae_masterVolume := 0\<rparr>"

definition am_transport :: "audio_manager \<Rightarrow> audio_manager" where
  "am_transport s =
     s\<lparr>am_masterGain := no_target (am_masterGain s),
       am_deckAGain := no_target (am_deckAGain s),
       am_deckBGain := no_target (am_deckBGain s)\<rparr>"

section \<open>Properties\<close>

lemmas ae_init_defs = ae_constructor_def ae_initializeAudioContext_def ae_setupAudioGraph_def
  ae_updateCrossfader_def ae_fields_def ae_initialDeck_def createGain_def setTargetAtTime_def
  createBufferSource_def

lemmas am_init_defs = am_initializeAudioContext_def am_updatePositions_def am_fields_def
  createGain_def createBufferSource_def

subsection \<open>The crossfader law\<close>

lemma ae_setCrossfader_gains:
  assumes "ae_crossfaderGainA s \<noteq> None" "ae_crossfaderGainB s \<noteq> None" "ae_audioContext s \<noteq> None"
  shows "ae_crossfaderGains (ae_setCrossfader p s) =
           Some (cos (max 0 (min 1 p) * pi / 2), sin (max 0 (min 1 p) * pi / 2))"
  using assms
  by (auto simp: ae_crossfaderGains_def ae_setCrossfader_def ae_updateCrossfader_def
        target_of_def setTargetAtTime_def Let_def)

lemma am_setCrossfader_gains:
  assumes "am_deckAGain m \<noteq> None" "am_deckBGain m \<noteq> None" "am_audioContext m \<noteq> None"
  shows "am_crossfaderGains (am_setCrossfader q m) =
           Some (if max (- 1) (min 1 q) \<le> 0 then 1 else 1 - max (- 1) (min 1 q),
                 if max (- 1) (min 1 q) \<ge> 0 then 1 else 1 + max (- 1) (min 1 q))"
  using assms
  by (auto simp: am_crossfaderGains_def am_setCrossfader_def
        target_of_def setTargetAtTime_def Let_def)

text \<open>
  C1, as amended. In an initialised \<open>AudioEngine\<close>, \<open>setCrossfader p\<close> with \<open>p\<close> in
  \<open>[0, 1]\<close> computes gainA = cos (p \<pi> / 2) and gainB = sin (p \<pi> / 2); the squares of the
  two gains add up to 1; at the centre both gains are \<open>sqrt 2 / 2\<close>; at the extremes
  the gains are (1, 0) and (0, 1). In an initialised \<open>AudioManager\<close>, whose position
  runs from -1 to 1, \<open>setCrossfader q\<close> computes the piecewise linear pair
  (1 or 1 - q, 1 or 1 + q): both gains are 1 at the centre 0, and the gains at the
  extremes -1 and 1 are (1, 0) and (0, 1).
\<close>

theorem C1_crossfader_law:
  assumes "ae_crossfaderGainA s \<noteq> None" "ae_crossfaderGainB s \<noteq> None" "ae_audioContext s \<noteq> None"
    and "am_deckAGain m \<noteq> None" "am_deckBGain m \<noteq> None" "am_audioContext m \<noteq> None"
    and "0 \<le> p" "p \<le> 1"
  shows "ae_crossfaderGains (ae_setCrossfader p s) = Some (cos (p * pi / 2), sin (p * pi / 2))
       \<and> power_sum (ae_crossfaderGains (ae_setCrossfader p s)) = Some 1
       \<and> ae_crossfaderGains (ae_setCrossfader (1/2) s) = Some (sqrt 2 / 2, sqrt 2 / 2)
       \<and> ae_crossfaderGains (ae_setCrossfader 0 s) = Some (1, 0)
       \<and> ae_crossfaderGains (ae_setCrossfader 1 s) = Some (0, 1)
       \<and> am_crossfaderGains (am_setCrossfader q m) =
           Some (if max (- 1) (min 1 q) \<le> 0 then 1 else 1 - max (- 1) (min 1 q),
                 if max (- 1) (min 1 q) \<ge> 0 then 1 else 1 + max (- 1) (min 1 q))
       \<and> am_crossfaderGains (am_setCrossfader 0 m) = Some (1, 1)
       \<and> am_crossfaderGains (am_setCrossfader (- 1) m) = Some (1, 0)
       \<and> am_crossfaderGains (am_setCrossfader 1 m) = Some (0, 1)"
proof -
  have 1: "ae_crossfaderGains (ae_setCrossfader p s) = Some (cos (p * pi / 2), sin (p * pi / 2))"
    using assms by (simp add: ae_setCrossfader_gains)
  have 2: "power_sum (ae_crossfaderGains (ae_setCrossfader p s)) = Some 1"
    by (simp add: 1 power_sum_def)
  have 3: "ae_crossfaderGains (ae_setCrossfader (1/2) s) = Some (sqrt 2 / 2, sqrt 2 / 2)"
    using assms(1-3) by (simp add: ae_setCrossfader_gains cos_45 sin_45)
  have 4: "ae_crossfaderGains (ae_setCrossfader 0 s) = Some (1, 0)"
    using assms(1-3) by (simp add: ae_setCrossfader_gains)
  have 5: "ae_crossfaderGains (ae_setCrossfader 1 s) = Some (0, 1)"
    using assms(1-3) by (simp add: ae_setCrossfader_gains)
  have 6: "am_crossfaderGains (am_setCrossfader q m) =
           Some (if max (- 1) (min 1 q) \<le> 0 then 1 else 1 - max (- 1) (min 1 q),
                 if max (- 1) (min 1 q) \<ge> 0 then 1 else 1 + max (- 1) (min 1 q))"
    using assms(4-6) by (rule am_setCrossfader_gains)
  have 7: "am_crossfaderGains (am_setCrossfader 0 m) = Some (1, 1)"
    using assms(4-6) by (simp add: am_setCrossfader_gains)
  have 8: "am_crossfaderGains (am_setCrossfader (- 1) m) = Some (1, 0)"
    using assms(4-6) by (simp add: am_setCrossfader_gains)
  have 9: "am_crossfaderGains (am_setCrossfader 1 m) = Some (0, 1)"
    using assms(4-6) by (simp add: am_setCrossfader_gains)
  show ?thesis using 1 2 3 4 5 6 7 8 9 by blast
qed

text \<open>
  C1, witness: the amended law at a freshly constructed engine and a freshly
  initialised manager, with \<open>p = 1/3\<close> and \<open>q = 1/2\<close>.
\<close>

theorem C1_crossfader_law_witness:
  "ae_crossfaderGains (ae_setCrossfader (1/3) (ae_constructor True False)) =
      Some (cos ((1/3) * pi / 2), sin ((1/3) * pi / 2))
   \<and> power_sum (ae_crossfaderGains (ae_setCrossfader (1/3) (ae_constructor True False))) = Some 1
   \<and> ae_crossfaderGains (ae_setCrossfader (1/2) (ae_constructor True False)) =
      Some (sqrt 2 / 2, sqrt 2 / 2)
   \<and> ae_crossfaderGains (ae_setCrossfader 0 (ae_constructor True False)) = Some (1, 0)
   \<and> ae_crossfaderGains (ae_setCrossfader 1 (ae_constructor True False)) = Some (0, 1)
   \<and> am_crossfaderGains
        (am_setCrossfader (1/2) (snd (am_initializeAudioContext True True am_fields))) =
      Some (1/2, 1)
   \<and> am_crossfaderGains
        (am_setCrossfader 0 (snd (am_initializeAudioContext True True am_fields))) = Some (1, 1)
   \<and> am_crossfaderGains
        (am_setCrossfader (- 1) (snd (am_initializeAudioContext True True am_fields))) = Some (1, 0)
   \<and> am_crossfaderGains
        (am_setCrossfader 1 (snd (am_initializeAudioContext True True am_fields))) = Some (0, 1)"
proof -
  let ?s = "ae_constructor True False"
  let ?m = "snd (am_initializeAudioContext True True am_fields)"
  have ae: "ae_crossfaderGainA ?s \<noteq> None" "ae_crossfaderGainB ?s \<noteq> None"
    "ae_audioContext ?s \<noteq> None"
    by (simp_all add: ae_init_defs)
  have am: "am_deckAGain ?m \<noteq> None" "am_deckBGain ?m \<noteq> None" "am_audioContext ?m \<noteq> None"
    by (simp_all add: am_init_defs)
  have p: "(0::real) \<le> 1/3" "(1/3::real) \<le> 1"
    by simp_all
  show ?thesis
    using C1_crossfader_law [OF ae am p, of "1/2"] by (simp add: power_sum_def)
qed

text \<open>
  C1, counterexample: the claim as stated fails in \<open>AudioManager\<close>. At the centre of
  its crossfader (position 0, the normalised position 1/2) the computed gains are
  (1, 1), not (cos (\<pi> / 4), sin (\<pi> / 4)), and their squares add up to 2.
\<close>

theorem C1_am_center_counterexample:
  "am_crossfaderGains (am_setCrossfader 0 (snd (am_initializeAudioContext True True am_fields)))
     = Some (1, 1)
   \<and> am_crossfaderGains (am_setCrossfader 0 (snd (am_initializeAudioContext True True am_fields)))
     \<noteq> Some (cos ((1/2) * pi / 2), sin ((1/2) * pi / 2))
   \<and> power_sum (am_crossfaderGains
        (am_setCrossfader 0 (snd (am_initializeAudioContext True True am_fields)))) = Some 2"
proof -
  have g: "am_crossfaderGains (am_setCrossfader 0 (snd (am_initializeAudioContext True True am_fields)))
     = Some (1, 1)"
    by (simp add: am_setCrossfader_gains am_init_defs)
  have "sqrt 2 \<noteq> 2"
  proof
    assume "sqrt 2 = 2"
    then have "(sqrt 2)\<^sup>2 = 2\<^sup>2" by simp
    then show False by simp
  qed
  then have "sin ((1/2) * pi / 2) \<noteq> 1"
    by (simp add: sin_45)
  then show ?thesis
    by (simp add: g power_sum_def)
qed

subsection \<open>AudioEngine: the state after a call, and the invariant of its runs\<close>

lemmas ae_acc_defs = ae_deckState_def ae_setDeckState_def ae_source_def ae_setSource_def
  ae_gainNode_def ae_setGainNode_def ae_crossfaderGain_def

lemma ae_deckState_simps [simp]:
  "ae_deckState d' (ae_setDeckState d ds s) = (if d' = d then ds else ae_deckState d' s)"
  "ae_deckState d' (ae_setSource d x s) = ae_deckState d' s"
  "ae_deckState d' (ae_setGainNode d g s) = ae_deckState d' s"
  "ae_deckState d' (s\<lparr>ae_nodes := ns\<rparr>) = ae_deckState d' s"
  "ae_deckState d' (s\<lparr>ae_nextNode := k\<rparr>) = ae_deckState d' s"
  "ae_deckState d' (s\<lparr>ae_audioContext := c\<rparr>) = ae_deckState d' s"
  by (cases d; cases d'; simp add: ae_acc_defs)+

lemma ae_source_simps [simp]:
  "ae_source d' (ae_setSource d x s) = (if d' = d then x else ae_source d' s)"
  "ae_source d' (ae_setDeckState d ds s) = ae_source d' s"
  "ae_source d' (ae_setGainNode d g s) = ae_source d' s"
  "ae_source d' (s\<lparr>ae_nodes := ns\<rparr>) = ae_source d' s"
  "ae_source d' (s\<lparr>ae_nextNode := k\<rparr>) = ae_source d' s"
  "ae_source d' (s\<lparr>ae_audioContext := c\<rparr>) = ae_source d' s"
  by (cases d; cases d'; simp add: ae_acc_defs)+

lemma ae_gainNode_simps [simp]:
  "ae_gainNode d' (ae_setGainNode d g s) = (if d' = d then g else ae_gainNode d' s)"
  "ae_gainNode d' (ae_setDeckState d ds s) = ae_gainNode d' s"
  "ae_gainNode d' (ae_setSource d x s) = ae_gainNode d' s"
  "ae_gainNode d' (s\<lparr>ae_nodes := ns\<rparr>) = ae_gainNode d' s"
  "ae_gainNode d' (s\<lparr>ae_nextNode := k\<rparr>) = ae_gainNode d' s"
  "ae_gainNode d' (s\<lparr>ae_audioContext := c\<rparr>) = ae_gainNode d' s"
  by (cases d; cases d'; simp add: ae_acc_defs)+

lemma ae_crossfaderGain_simps [simp]:
  "ae_crossfaderGain d' (ae_setGainNode d g s) = ae_crossfaderGain d' s"
  "ae_crossfaderGain d' (ae_setDeckState d ds s) = ae_crossfaderGain d' s"
  "ae_crossfaderGain d' (ae_setSource d x s) = ae_crossfaderGain d' s"
  "ae_crossfaderGain d' (s\<lparr>ae_nodes := ns\<rparr>) = ae_crossfaderGain d' s"
  "ae_crossfaderGain d' (s\<lparr>ae_nextNode := k\<rparr>) = ae_crossfaderGain d' s"
  "ae_crossfaderGain d' (s\<lparr>ae_audioContext := c\<rparr>) = ae_crossfaderGain d' s"
  by (cases d; cases d'; simp add: ae_acc_defs)+

lemma ae_setDeckState_fields [simp]:
  "ae_audioContext (ae_setDeckState d ds s) = ae_audioContext s"
  "ae_masterGainNode (ae_setDeckState d ds s) = ae_masterGainNode s"
  "ae_deckAGainNode (ae_setDeckState d ds s) = ae_deckAGainNode s"
  "ae_deckBGainNode (ae_setDeckState d ds s) = ae_deckBGainNode s"
  "ae_crossfaderGainA (ae_setDeckState d ds s) = ae_crossfaderGainA s"
  "ae_crossfaderGainB (ae_setDeckState d ds s) = ae_crossfaderGainB s"
  "ae_crossfaderPosition (ae_setDeckState d ds s) = ae_crossfaderPosition s"
  "ae_masterVolume (ae_setDeckState d ds s) = ae_masterVolume s"
  "ae_nodes (ae_setDeckState d ds s) = ae_nodes s"
  "ae_nextNode (ae_setDeckState d ds s) = ae_nextNode s"
  by (cases d; simp add: ae_acc_defs)+

lemma ae_setSource_fields [simp]:
  "ae_audioContext (ae_setSource d x s) = ae_audioContext s"
  "ae_masterGainNode (ae_setSource d x s) = ae_masterGainNode s"
  "ae_deckAGainNode (ae_setSource d x s) = ae_deckAGainNode s"
  "ae_deckBGainNode (ae_setSource d x s) = ae_deckBGainNode s"
  "ae_crossfaderGainA (ae_setSource d x s) = ae_crossfaderGainA s"
  "ae_crossfaderGainB (ae_setSource d x s) = ae_crossfaderGainB s"
  "ae_crossfaderPosition (ae_setSource d x s) = ae_crossfaderPosition s"
  "ae_masterVolume (ae_setSource d x s) = ae_masterVolume s"
  "ae_nodes (ae_setSource d x s) = ae_nodes s"
  "ae_nextNode (ae_setSource d x s) = ae_nextNode s"
  by (cases d; simp add: ae_acc_defs)+

lemma ae_tryStop_fields [simp]:
  "ae_audioContext (ae_tryStop n s) = ae_audioContext s"
  "ae_masterGainNode (ae_tryStop n s) = ae_masterGainNode s"
  "ae_deckAGainNode (ae_tryStop n s) = ae_deckAGainNode s"
  "ae_deckBGainNode (ae_tryStop n s) = ae_deckBGainNode s"
  "ae_crossfaderGainA (ae_tryStop n s) = ae_crossfaderGainA s"
  "ae_crossfaderGainB (ae_tryStop n s) = ae_crossfaderGainB s"
  "ae_crossfaderPosition (ae_tryStop n s) = ae_crossfaderPosition s"
  "ae_masterVolume (ae_tryStop n s) = ae_masterVolume s"
  "ae_nextNode (ae_tryStop n s) = ae_nextNode s"
  "ae_deckState d (ae_tryStop n s) = ae_deckState d s"
  "ae_source d (ae_tryStop n s) = ae_source d s"
  "ae_gainNode d (ae_tryStop n s) = ae_gainNode d s"
  "ae_crossfaderGain d (ae_tryStop n s) = ae_crossfaderGain d s"
  by (simp_all add: ae_tryStop_def split: option.splits)

text \<open>What stopDeck does to a deck and to the rest.\<close>

lemma ae_stopDeck_fields [simp]:
  "ae_audioContext (ae_stopDeck d s) = ae_audioContext s"
  "ae_masterGainNode (ae_stopDeck d s) = ae_masterGainNode s"
  "ae_deckAGainNode (ae_stopDeck d s) = ae_deckAGainNode s"
  "ae_deckBGainNode (ae_stopDeck d s) = ae_deckBGainNode s"
  "ae_crossfaderGainA (ae_stopDeck d s) = ae_crossfaderGainA s"
  "ae_crossfaderGainB (ae_stopDeck d s) = ae_crossfaderGainB s"
  "ae_crossfaderPosition (ae_stopDeck d s) = ae_crossfaderPosition s"
  "ae_masterVolume (ae_stopDeck d s) = ae_masterVolume s"
  "ae_nextNode (ae_stopDeck d s) = ae_nextNode s"
  by (simp_all add: ae_stopDeck_def Let_def split: option.splits)

lemma ae_stopDeck_other:
  "d' \<noteq> d \<Longrightarrow> ae_deckState d' (ae_stopDeck d s) = ae_deckState d' s"
  "d' \<noteq> d \<Longrightarrow> ae_source d' (ae_stopDeck d s) = ae_source d' s"
  by (simp_all add: ae_stopDeck_def Let_def split: option.splits)

lemma ae_stopDeck_same:
  "dk_isPlaying (ae_deckState d (ae_stopDeck d s)) = False"
  "dk_position (ae_deckState d (ae_stopDeck d s)) = 0"
  "dk_audioTrack (ae_deckState d (ae_stopDeck d s)) = dk_audioTrack (ae_deckState d s)"
  "dk_volume (ae_deckState d (ae_stopDeck d s)) = dk_volume (ae_deckState d s)"
  "ae_source d (ae_stopDeck d s) =
     (if dk_isPlaying (ae_deckState d s) then None else ae_source d s)"
  by (simp_all add: ae_stopDeck_def Let_def split: option.splits)

lemmas ae_inv_defs = ae_inv_def ae_graph_inv_def ae_deck_inv_def

lemma ae_inv_all: "ae_inv s = (ae_graph_inv s \<and> (\<forall>d. ae_deck_inv d s))"
proof -
  have "(\<forall>d. ae_deck_inv d s) = (ae_deck_inv A s \<and> ae_deck_inv B s)"
    by (metis deck_id.exhaust)
  then show ?thesis by (simp add: ae_inv_def)
qed

lemma ae_inv_constructor: "ae_inv (ae_constructor browser suspended)"
  by (simp add: ae_inv_defs ae_init_defs ae_acc_defs)

lemma ae_graph_inv_stopDeck: "ae_graph_inv s \<Longrightarrow> ae_graph_inv (ae_stopDeck d s)"
  by (simp add: ae_graph_inv_def split: option.splits)

lemma ae_deck_inv_stopDeck: "ae_deck_inv d' s \<Longrightarrow> ae_deck_inv d' (ae_stopDeck d s)"
  by (cases "d' = d") (auto simp: ae_deck_inv_def Let_def ae_stopDeck_other ae_stopDeck_same split: option.splits)

lemma ae_inv_stopDeck: "ae_inv s \<Longrightarrow> ae_inv (ae_stopDeck d s)"
  by (simp add: ae_inv_all ae_graph_inv_stopDeck ae_deck_inv_stopDeck)


lemma ae_graph_inv_gains:
  "ae_graph_inv s \<Longrightarrow> ae_audioContext s = Some c \<Longrightarrow>
     ae_gainNode d s \<noteq> None \<and> ae_crossfaderGain d s \<noteq> None \<and> ae_masterGainNode s \<noteq> None
     \<and> 0 \<le> ctx_currentTime c"
  by (cases d) (simp_all add: ae_graph_inv_def ae_gainNode_def ae_crossfaderGain_def)

lemma ae_playDeck_fields [simp]:
  "ae_masterGainNode (snd (ae_playDeck d s)) = ae_masterGainNode s"
  "ae_deckAGainNode (snd (ae_playDeck d s)) = ae_deckAGainNode s"
  "ae_deckBGainNode (snd (ae_playDeck d s)) = ae_deckBGainNode s"
  "ae_crossfaderGainA (snd (ae_playDeck d s)) = ae_crossfaderGainA s"
  "ae_crossfaderGainB (snd (ae_playDeck d s)) = ae_crossfaderGainB s"
  "ae_crossfaderPosition (snd (ae_playDeck d s)) = ae_crossfaderPosition s"
  "ae_masterVolume (snd (ae_playDeck d s)) = ae_masterVolume s"
  by (simp_all add: ae_playDeck_def Let_def split: option.splits)

lemma ae_playDeck_context:
  "ae_audioContext (snd (ae_playDeck d s)) =
     (if ae_masterGainNode s = None then ae_audioContext s
      else map_option (\<lambda>c. c\<lparr>ctx_suspended := False\<rparr>) (ae_audioContext s))"
  by (simp add: ae_playDeck_def Let_def split: option.splits)

lemma ae_playDeck_other:
  "d' \<noteq> d \<Longrightarrow> ae_deckState d' (snd (ae_playDeck d s)) = ae_deckState d' s"
  "d' \<noteq> d \<Longrightarrow> ae_source d' (snd (ae_playDeck d s)) = ae_source d' s"
  by (simp_all add: ae_playDeck_def Let_def split: option.splits)

lemma ae_graph_inv_playDeck: "ae_graph_inv s \<Longrightarrow> ae_graph_inv (snd (ae_playDeck d s))"
  by (auto simp: ae_graph_inv_def ae_playDeck_context split: option.splits)

lemma ae_deck_inv_playDeck_same:
  "ae_graph_inv s \<Longrightarrow> ae_deck_inv d s \<Longrightarrow> ae_deck_inv d (snd (ae_playDeck d s))"
  apply (cases "ae_audioContext s")
   apply (simp add: ae_playDeck_def)
  apply (frule (1) ae_graph_inv_gains [where d = d])
  apply (auto simp: ae_deck_inv_def ae_playDeck_def Let_def node_start_def createBufferSource_def
      split: option.splits if_splits)
  done

lemma ae_deck_inv_playDeck_other:
  "d' \<noteq> d \<Longrightarrow> ae_deck_inv d' s \<Longrightarrow> ae_deck_inv d' (snd (ae_playDeck d s))"
  by (auto simp: ae_deck_inv_def ae_playDeck_other ae_playDeck_context Let_def split: option.splits)

lemma ae_inv_playDeck: "ae_inv s \<Longrightarrow> ae_inv (snd (ae_playDeck d s))"
  unfolding ae_inv_all
  by (metis ae_graph_inv_playDeck ae_deck_inv_playDeck_same ae_deck_inv_playDeck_other)


lemma ae_pauseDeck_fields [simp]:
  "ae_audioContext (ae_pauseDeck d s) = ae_audioContext s"
  "ae_masterGainNode (ae_pauseDeck d s) = ae_masterGainNode s"
  "ae_deckAGainNode (ae_pauseDeck d s) = ae_deckAGainNode s"
  "ae_deckBGainNode (ae_pauseDeck d s) = ae_deckBGainNode s"
  "ae_crossfaderGainA (ae_pauseDeck d s) = ae_crossfaderGainA s"
  "ae_crossfaderGainB (ae_pauseDeck d s) = ae_crossfaderGainB s"
  "ae_crossfaderPosition (ae_pauseDeck d s) = ae_crossfaderPosition s"
  "ae_masterVolume (ae_pauseDeck d s) = ae_masterVolume s"
  "ae_nextNode (ae_pauseDeck d s) = ae_nextNode s"
  by (simp_all add: ae_pauseDeck_def Let_def split: option.splits)

lemma ae_pauseDeck_other:
  "d' \<noteq> d \<Longrightarrow> ae_deckState d' (ae_pauseDeck d s) = ae_deckState d' s"
  "d' \<noteq> d \<Longrightarrow> ae_source d' (ae_pauseDeck d s) = ae_source d' s"
  by (simp_all add: ae_pauseDeck_def Let_def split: option.splits)

lemma ae_graph_inv_pauseDeck: "ae_graph_inv s \<Longrightarrow> ae_graph_inv (ae_pauseDeck d s)"
  by (simp add: ae_graph_inv_def split: option.splits)

lemma ae_deck_inv_pauseDeck: "ae_deck_inv d' s \<Longrightarrow> ae_deck_inv d' (ae_pauseDeck d s)"
proof (cases "d' = d")
  case False
  assume "ae_deck_inv d' s"
  with False show ?thesis
    by (auto simp: ae_deck_inv_def Let_def ae_pauseDeck_other split: option.splits)
next
  case True
  assume "ae_deck_inv d' s"
  with True show ?thesis
    by (auto simp: ae_deck_inv_def Let_def ae_pauseDeck_def split: option.splits if_splits)
qed

lemma ae_inv_pauseDeck: "ae_inv s \<Longrightarrow> ae_inv (ae_pauseDeck d s)"
  by (simp add: ae_inv_all ae_graph_inv_pauseDeck ae_deck_inv_pauseDeck)

lemma ae_graph_inv_setDeckState:
  "ae_graph_inv s \<Longrightarrow> ae_graph_inv (ae_setDeckState d ds s)"
  by (simp add: ae_graph_inv_def split: option.splits)

lemma ae_inv_loadTrackToDeck: "ae_inv s \<Longrightarrow> ae_inv (ae_loadTrackToDeck audioTrack d s)"
proof -
  assume inv: "ae_inv s"
  define s1 where "s1 = (if dk_isPlaying (ae_deckState d s) then ae_stopDeck d s else s)"
  have inv1: "ae_inv s1"
    using inv by (simp add: s1_def ae_inv_stopDeck)
  have stopped: "\<not> dk_isPlaying (ae_deckState d s1)"
    by (simp add: s1_def ae_stopDeck_same)
  have eq: "ae_loadTrackToDeck audioTrack d s =
      ae_setDeckState d ((ae_deckState d s1)\<lparr>dk_audioTrack := Some audioTrack, dk_position := 0\<rparr>) s1"
    by (simp add: ae_loadTrackToDeck_def s1_def Let_def)
  have "ae_deck_inv d' (ae_loadTrackToDeck audioTrack d s)" for d'
    using inv1 stopped unfolding eq ae_inv_all
    by (auto simp: ae_deck_inv_def Let_def split: option.splits)
  moreover have "ae_graph_inv (ae_loadTrackToDeck audioTrack d s)"
    using inv1 unfolding eq ae_inv_all by (simp add: ae_graph_inv_setDeckState)
  ultimately show ?thesis by (simp add: ae_inv_all)
qed

lemma ae_inv_dispatched:
  "ae_inv s \<Longrightarrow> ae_inv (s\<lparr>ae_nodes := ns\<rparr>)"
  by (simp add: ae_inv_all ae_graph_inv_def ae_deck_inv_def Let_def split: option.splits)

lemma ae_inv_onended: "ae_inv s \<Longrightarrow> ae_inv (ae_onended n s)"
  by (simp add: ae_onended_def Let_def ae_inv_dispatched ae_inv_stopDeck split: option.splits)

lemma ae_inv_setDeckVolume: "ae_inv s \<Longrightarrow> ae_inv (ae_after s (ae_setDeckVolume d v s))"
  by (cases d)
    (auto simp: ae_after_def ae_setDeckVolume_def Let_def ae_inv_def ae_graph_inv_def ae_deck_inv_def
      ae_acc_defs split: option.splits)

lemma ae_inv_setMasterVolume: "ae_inv s \<Longrightarrow> ae_inv (ae_after s (ae_setMasterVolume v s))"
  by (auto simp: ae_after_def ae_setMasterVolume_def Let_def ae_inv_def ae_graph_inv_def ae_deck_inv_def
      ae_acc_defs split: option.splits)

lemma ae_inv_setCrossfader: "ae_inv s \<Longrightarrow> ae_inv (ae_setCrossfader p s)"
  by (auto simp: ae_setCrossfader_def ae_updateCrossfader_def Let_def ae_inv_def ae_graph_inv_def
      ae_deck_inv_def ae_acc_defs split: option.splits)

lemma ae_inv_getDeckState: "ae_inv s \<Longrightarrow> ae_inv (snd (ae_getDeckState d s))"
proof -
  assume inv: "ae_inv s"
  have "ae_deck_inv d' (snd (ae_getDeckState d s))" for d'
    using inv unfolding ae_inv_all
    by (cases "d' = d")
      (auto simp: ae_deck_inv_def ae_getDeckState_def Let_def split: option.splits if_splits)
  moreover have "ae_graph_inv (snd (ae_getDeckState d s))"
    using inv unfolding ae_inv_all
    by (auto simp: ae_graph_inv_def ae_getDeckState_def Let_def split: option.splits if_splits)
  ultimately show ?thesis by (simp add: ae_inv_all)
qed

lemma ae_inv_advance: "0 \<le> dt \<Longrightarrow> ae_inv s \<Longrightarrow> ae_inv (ae_advance dt s)"
  by (auto simp: ae_advance_def ctx_advance_def ae_inv_def ae_graph_inv_def ae_deck_inv_def
      ae_acc_defs Let_def split: option.splits)

lemma ae_inv_resumed: "ae_inv s \<Longrightarrow> ae_inv (ae_resumed s)"
  by (auto simp: ae_resumed_def ae_inv_def ae_graph_inv_def ae_deck_inv_def
      ae_acc_defs Let_def split: option.splits)

lemma ae_inv_step: "ae_inv s \<Longrightarrow> ae_enabled c s \<Longrightarrow> ae_inv (ae_step c s)"
  by (cases c)
    (simp_all add: ae_inv_loadTrackToDeck ae_inv_playDeck ae_inv_pauseDeck ae_inv_stopDeck
      ae_inv_setDeckVolume ae_inv_setMasterVolume ae_inv_setCrossfader ae_inv_getDeckState
      ae_inv_advance ae_inv_resumed ae_inv_onended)

lemma ae_reachable_inv: "ae_reachable s \<Longrightarrow> ae_inv s"
  by (induction rule: ae_reachable.induct) (simp_all add: ae_inv_constructor ae_inv_step)

subsection \<open>AudioManager: the invariant of its runs\<close>

lemmas am_inv_defs = am_inv_def am_graph_inv_def am_track_inv_def

lemma am_track_inv_extends:
  "am_extends s s' \<Longrightarrow> am_track_inv s track \<Longrightarrow> am_track_inv s' track"
  by (auto simp: am_extends_def am_track_inv_def split: option.splits)

lemma am_invI:
  assumes "am_inv s" "am_extends s s'" "am_graph_inv s'"
    and "\<And>r t. am_objects s' r = Some t \<Longrightarrow> am_objects s r = Some t \<or> am_track_inv s' t"
    and "\<And>trackId r. map_of (am_tracks s') trackId = Some r \<Longrightarrow> am_objects s' r \<noteq> None"
  shows "am_inv s'"
  unfolding am_inv_def
proof (intro conjI allI impI)
  show "am_graph_inv s'" by fact
next
  fix r track assume "am_objects s' r = Some track"
  then have "am_objects s r = Some track \<or> am_track_inv s' track" by (rule assms(4))
  then show "am_track_inv s' track"
    using assms(1,2) by (auto simp: am_inv_def intro: am_track_inv_extends)
next
  fix trackId r assume "map_of (am_tracks s') trackId = Some r"
  then show "am_objects s' r \<noteq> None" by (rule assms(5))
qed

lemma am_inv_get:
  assumes "am_inv s" "am_get s trackId = Some (r, track)"
  shows "am_objects s r = Some track" "map_of (am_tracks s) trackId = Some r"
    "am_track_inv s track" "am_audioContext s \<noteq> None"
proof -
  show o: "am_objects s r = Some track" and "map_of (am_tracks s) trackId = Some r"
    using assms(2) by (auto simp: am_get_def split: option.splits)
  then show "am_track_inv s track" using assms(1) by (simp add: am_inv_def)
  show "am_audioContext s \<noteq> None"
    using assms(1) o by (auto simp: am_inv_def am_graph_inv_def split: option.splits)
qed

lemma am_stopSource_started:
  assumes "\<And>n. tr_source track = Some n \<Longrightarrow> sn_status (am_nodes s n) \<noteq> Created"
  shows "am_stopSource track s =
     Some (s\<lparr>am_nodes := (case tr_source track of
                             None \<Rightarrow> am_nodes s
                           | Some n \<Rightarrow> (am_nodes s)(n := (am_nodes s n)\<lparr>sn_status := Stopped\<rparr>))\<rparr>)"
  using assms
  by (simp add: am_stopSource_def am_stopNode_def node_stop_def split: option.splits)

lemma am_track_inv_source:
  "am_track_inv s track \<Longrightarrow> tr_source track = Some n \<Longrightarrow>
     sn_status (am_nodes s n) \<noteq> Created \<and> n < am_nextNode s"
  by (simp add: am_track_inv_def)

lemma am_playTrack_eq:
  assumes inv: "am_inv s" and ctx: "am_audioContext s = Some c"
    and get: "am_get s trackId = Some (r, track)"
  shows "am_playTrack trackId d s =
     (True,
      s\<lparr>am_audioContext := Some (c\<lparr>ctx_suspended := False\<rparr>),
        am_nodes :=
          (case tr_source track of
             None \<Rightarrow> am_nodes s
           | Some n \<Rightarrow> (am_nodes s)(n := (am_nodes s n)\<lparr>sn_status := Stopped\<rparr>))
          (am_nextNode s :=
             \<lparr>sn_buffer = Some (tr_audioBuffer track), sn_status = Started,
              sn_when = max 0 (ctx_currentTime c), sn_offset = tr_pausedAt track,
              sn_onended = Some (r, d), sn_dispatched = False\<rparr>),
        am_nextNode := Suc (am_nextNode s),
        am_objects := (am_objects s)(r \<mapsto>
          track\<lparr>tr_source := Some (am_nextNode s),
                tr_gainNode := Some \<lparr>gain_value = 1, gain_target = None\<rparr>,
                tr_startTime := ctx_currentTime c - tr_pausedAt track,
                tr_isPlaying := True, tr_pausedAt := 0\<rparr>)\<rparr>)"
proof -
  note t = am_inv_get [OF inv get]
  have gain: "am_deckGain d s \<noteq> None"
    using inv ctx by (cases d) (auto simp: am_inv_def am_graph_inv_def am_deckGain_def)
  have paused: "0 \<le> tr_pausedAt track"
    using t(3) by (simp add: am_track_inv_def)
  have stop: "am_stopSource track (s\<lparr>am_audioContext := Some (c\<lparr>ctx_suspended := False\<rparr>)\<rparr>) =
     Some (s\<lparr>am_audioContext := Some (c\<lparr>ctx_suspended := False\<rparr>),
             am_nodes := (case tr_source track of
                             None \<Rightarrow> am_nodes s
                           | Some n \<Rightarrow> (am_nodes s)(n := (am_nodes s n)\<lparr>sn_status := Stopped\<rparr>))\<rparr>)"
    using t(3)
    by (cases "tr_source track")
      (auto simp: am_stopSource_def am_stopNode_def node_stop_def am_track_inv_def)
  have gain': "\<And>ns k os c'. am_deckGain d (s\<lparr>am_audioContext := c', am_nodes := ns,
       am_nextNode := k, am_objects := os\<rparr>) = am_deckGain d s"
    by (cases d) (simp_all add: am_deckGain_def)
  show ?thesis
    using gain paused
    by (auto simp: am_playTrack_def ctx get stop Let_def gain' node_start_def createBufferSource_def
        createGain_def or_zero_def split: option.splits)
qed


lemma am_playTrack_unchanged:
  "am_audioContext s = None \<or> am_get s trackId = None \<Longrightarrow> am_playTrack trackId d s = (False, s)"
  by (auto simp: am_playTrack_def split: option.splits)

lemma am_inv_playTrack: "am_inv s \<Longrightarrow> am_inv (snd (am_playTrack trackId d s))"
proof (cases "am_audioContext s = None \<or> am_get s trackId = None")
  case True
  assume "am_inv s"
  then show ?thesis using True by (simp add: am_playTrack_unchanged)
next
  case False
  assume inv: "am_inv s"
  from False obtain c r track where ctx: "am_audioContext s = Some c"
    and get: "am_get s trackId = Some (r, track)" by auto
  note t = am_inv_get [OF inv get]
  note eq = am_playTrack_eq [OF inv ctx get, of d]
  show ?thesis
  proof (rule am_invI [OF inv])
    show "am_extends s (snd (am_playTrack trackId d s))"
      by (auto simp: eq am_extends_def ctx split: option.splits)
    show "am_graph_inv (snd (am_playTrack trackId d s))"
      using inv ctx by (simp add: eq am_inv_def am_graph_inv_def)
    show "am_objects s r' = Some t' \<or> am_track_inv (snd (am_playTrack trackId d s)) t'"
      if "am_objects (snd (am_playTrack trackId d s)) r' = Some t'" for r' t'
      using that t(3) inv ctx
      by (auto simp: eq am_track_inv_def am_inv_def am_graph_inv_def split: if_splits)
    show "am_objects (snd (am_playTrack trackId d s)) r' \<noteq> None"
      if "map_of (am_tracks (snd (am_playTrack trackId d s))) tid = Some r'" for tid r'
      using that inv by (auto simp: eq am_inv_def)
  qed
qed

lemma am_inv_fields: "am_inv am_fields"
  by (simp add: am_inv_defs am_fields_def)

lemma am_inv_initialize:
  "am_audioContext s = None \<Longrightarrow> am_inv s \<Longrightarrow> am_inv (snd (am_initializeAudioContext b su s))"
  by (simp add: am_inv_defs am_initializeAudioContext_def am_updatePositions_def createGain_def)

lemma am_inv_stopTrack: "am_inv s \<Longrightarrow> am_inv (snd (am_stopTrack trackId s))"
  by (auto simp: am_inv_defs am_stopTrack_def am_get_def am_stopSource_def am_stopNode_def
      node_stop_def split: option.splits if_splits)

lemma am_inv_pauseTrack: "am_inv s \<Longrightarrow> am_inv (snd (am_pauseTrack trackId s))"
  by (auto simp: am_inv_defs am_pauseTrack_def am_get_def am_stopSource_def am_stopNode_def
      node_stop_def Let_def split: option.splits if_splits)

lemma am_extends_same:
  "am_audioContext s' = am_audioContext s \<Longrightarrow> am_nextNode s' = am_nextNode s \<Longrightarrow>
     am_nodes s' = am_nodes s \<Longrightarrow> am_extends s s'"
  by (simp add: am_extends_def split: option.splits)

lemma am_inv_frame:
  assumes "am_inv s" "am_extends s s'" "am_graph_inv s'"
    and "am_objects s' = am_objects s" "am_tracks s' = am_tracks s"
  shows "am_inv s'"
  using assms(1) by (intro am_invI [OF assms(1-3)]) (simp_all add: assms(4,5) am_inv_def)

lemma am_inv_setCallbacks: "am_inv s \<Longrightarrow> am_inv (am_setCallbacks s)"
  by (rule am_inv_frame [where s = s])
    (simp_all add: am_setCallbacks_def am_extends_same am_inv_def am_graph_inv_def
      split: option.splits)

lemma am_inv_setDeckVolume: "am_inv s \<Longrightarrow> am_inv (am_setDeckVolume d v s)"
  by (rule am_inv_frame [where s = s]; cases d)
    (auto simp: am_setDeckVolume_def am_deckGain_def am_setDeckGain_def Let_def
      am_extends_same am_inv_def am_graph_inv_def split: option.splits)

lemma am_inv_setMasterVolume: "am_inv s \<Longrightarrow> am_inv (am_setMasterVolume v s)"
  by (rule am_inv_frame [where s = s])
    (auto simp: am_setMasterVolume_def am_extends_same am_inv_def am_graph_inv_def
      split: option.splits)

lemma am_inv_setCrossfader: "am_inv s \<Longrightarrow> am_inv (am_setCrossfader p s)"
  by (rule am_inv_frame [where s = s])
    (auto simp: am_setCrossfader_def Let_def am_extends_same am_inv_def am_graph_inv_def
      split: option.splits)

lemma am_inv_advance: "0 \<le> dt \<Longrightarrow> am_inv s \<Longrightarrow> am_inv (am_advance dt s)"
  by (rule am_inv_frame [where s = s])
    (auto simp: am_advance_def ctx_advance_def am_extends_def am_inv_def am_graph_inv_def
      split: option.splits)


lemma am_loadTrack_eq:
  "am_audioContext s = Some c \<Longrightarrow>
   snd (am_loadTrack (Some b) trackId s) =
      s\<lparr>am_objects := (am_objects s)(am_nextObject s \<mapsto>
            \<lparr>tr_id = trackId, tr_audioBuffer = b, tr_source = None, tr_gainNode = None,
             tr_isPlaying = False, tr_startTime = 0, tr_pausedAt = 0,
             tr_duration = buf_duration b, tr_currentTime = 0\<rparr>),
        am_nextObject := Suc (am_nextObject s),
        am_tracks := AList.update trackId (am_nextObject s) (am_tracks s)\<rparr>"
  by (simp add: am_loadTrack_def Let_def)

lemma am_inv_loadTrack_Some:
  assumes "0 \<le> buf_duration b" "am_inv s" "am_audioContext s = Some c"
  shows "am_inv (snd (am_loadTrack (Some b) trackId s))"
proof (rule am_invI [OF assms(2)])
  note eq = am_loadTrack_eq [OF assms(3), of b trackId]
  show "am_extends s (snd (am_loadTrack (Some b) trackId s))"
    by (simp add: eq am_extends_same)
  show "am_graph_inv (snd (am_loadTrack (Some b) trackId s))"
    using assms(2,3) by (simp add: eq am_inv_def am_graph_inv_def)
  show "am_objects s r' = Some t' \<or> am_track_inv (snd (am_loadTrack (Some b) trackId s)) t'"
    if "am_objects (snd (am_loadTrack (Some b) trackId s)) r' = Some t'" for r' t'
    using that assms(1) by (auto simp: eq am_track_inv_def split: if_splits)
  show "am_objects (snd (am_loadTrack (Some b) trackId s)) r' \<noteq> None"
    if "map_of (am_tracks (snd (am_loadTrack (Some b) trackId s))) tid = Some r'" for tid r'
    using that assms(2) by (auto simp: eq am_inv_def update_conv' split: if_splits)
qed

lemma am_inv_loadTrack:
  assumes "case decoded of None \<Rightarrow> True | Some b \<Rightarrow> 0 \<le> buf_duration b" "am_inv s"
  shows "am_inv (snd (am_loadTrack decoded trackId s))"
proof (cases "am_audioContext s = None \<or> decoded = None")
  case True
  then show ?thesis using assms(2) by (auto simp: am_loadTrack_def split: option.splits)
next
  case False
  then obtain c b where ctx: "am_audioContext s = Some c" and dec: "decoded = Some b" by auto
  show ?thesis
    using assms(1) am_inv_loadTrack_Some [OF _ assms(2) ctx, of b trackId] by (simp add: dec)
qed

lemma am_track_inv_cong:
  "am_audioContext s' = am_audioContext s \<Longrightarrow> am_nextNode s' = am_nextNode s \<Longrightarrow>
     (\<And>n. sn_status (am_nodes s' n) = sn_status (am_nodes s n)) \<Longrightarrow>
     am_track_inv s' t = am_track_inv s t"
  by (simp add: am_track_inv_def split: option.splits)

lemma am_inv_object_update:
  assumes "am_inv s" "am_objects s r = Some t" "am_track_inv s t'"
  shows "am_inv (s\<lparr>am_objects := (am_objects s)(r \<mapsto> t')\<rparr>)"
proof (rule am_invI [OF assms(1)])
  let ?s' = "s\<lparr>am_objects := (am_objects s)(r \<mapsto> t')\<rparr>"
  show "am_extends s ?s'" by (simp add: am_extends_same)
  show "am_graph_inv ?s'"
    using assms(1,2) by (auto simp: am_inv_def am_graph_inv_def split: option.splits)
  have "am_track_inv ?s' t'"
    using assms(3) by (simp add: am_track_inv_cong [of ?s' s])
  then show "am_objects s r' = Some u \<or> am_track_inv ?s' u"
    if "am_objects ?s' r' = Some u" for r' u
    using that by (auto split: if_splits)
  show "am_objects ?s' r' \<noteq> None" if "map_of (am_tracks ?s') tid = Some r'" for tid r'
    using that assms(1) by (auto simp: am_inv_def)
qed

lemma am_inv_object:
  "am_inv s \<Longrightarrow> am_objects s r = Some t \<Longrightarrow> am_track_inv s t"
  by (simp add: am_inv_def)

lemma am_stopTrack_eq:
  assumes inv: "am_inv s" and get: "am_get s trackId = Some (r, track)"
  shows "am_stopTrack trackId s =
     (True,
      s\<lparr>am_nodes :=
          (case tr_source track of
             None \<Rightarrow> am_nodes s
           | Some n \<Rightarrow> (am_nodes s)(n := (am_nodes s n)\<lparr>sn_status := Stopped\<rparr>)),
        am_objects := (am_objects s)(r \<mapsto>
          track\<lparr>tr_isPlaying := False, tr_pausedAt := 0, tr_currentTime := 0,
                tr_startTime := 0\<rparr>)\<rparr>)"
proof -
  note t = am_inv_get [OF inv get]
  have "am_stopSource track s =
     Some (s\<lparr>am_nodes := (case tr_source track of
                             None \<Rightarrow> am_nodes s
                           | Some n \<Rightarrow> (am_nodes s)(n := (am_nodes s n)\<lparr>sn_status := Stopped\<rparr>))\<rparr>)"
    using t(3)
    by (cases "tr_source track")
      (auto simp: am_stopSource_def am_stopNode_def node_stop_def am_track_inv_def)
  then show ?thesis
    by (simp add: am_stopTrack_def get)
qed

lemma am_inv_seekTo: "am_inv s \<Longrightarrow> am_inv (snd (am_seekTo trackId position d s))"
proof (cases "am_get s trackId")
  case None
  assume "am_inv s"
  then show ?thesis using None by (simp add: am_seekTo_def)
next
  case (Some a)
  assume inv: "am_inv s"
  obtain r track where a: "a = (r, track)" by (cases a)
  define s1 where "s1 = snd (am_stopTrack trackId s)"
  define s2 where "s2 = (case am_objects s1 r of
       None \<Rightarrow> s1
     | Some t \<Rightarrow> s1\<lparr>am_objects := (am_objects s1)(r \<mapsto>
                     t\<lparr>tr_pausedAt := max 0 (min (tr_duration t) position)\<rparr>)\<rparr>)"
  have inv1: "am_inv s1" using inv by (simp add: s1_def am_inv_stopTrack)
  have idle1: "\<not> tr_isPlaying t" if "am_objects s1 r = Some t" for t
    using that am_stopTrack_eq [OF inv Some [unfolded a]] by (auto simp: s1_def)
  have inv2: "am_inv s2"
  proof (cases "am_objects s1 r")
    case None
    then show ?thesis using inv1 by (simp add: s2_def)
  next
    case (Some t)
    have "am_track_inv s1 (t\<lparr>tr_pausedAt := max 0 (min (tr_duration t) position)\<rparr>)"
      using am_inv_object [OF inv1 Some] idle1 [OF Some]
      by (simp add: am_track_inv_def split: option.splits)
    from am_inv_object_update [OF inv1 Some this] show ?thesis
      by (simp add: s2_def Some)
  qed
  have "snd (am_seekTo trackId position d s) =
      (if tr_isPlaying track then snd (am_playTrack trackId d s2) else s2)"
    unfolding s2_def s1_def by (simp add: am_seekTo_def Some a Let_def)
  then show ?thesis using inv2 by (simp add: am_inv_playTrack)
qed

lemma am_inv_logPosition:
  "am_inv s \<Longrightarrow> am_inv (s\<lparr>am_positionUpdates := xs\<rparr>)"
  by (rule am_inv_frame [where s = s])
    (simp_all add: am_extends_same am_inv_def am_graph_inv_def split: option.splits)

lemma am_inv_logTrackEnd:
  "am_inv s \<Longrightarrow> am_inv (s\<lparr>am_trackEnds := xs\<rparr>)"
  by (rule am_inv_frame [where s = s])
    (simp_all add: am_extends_same am_inv_def am_graph_inv_def split: option.splits)

lemma am_inv_updateTrack: "am_inv s \<Longrightarrow> am_inv (am_updateTrack entry s)"
proof -
  assume inv: "am_inv s"
  have upd: "am_inv (s\<lparr>am_objects := (am_objects s)(r \<mapsto> t\<lparr>tr_currentTime := x\<rparr>)\<rparr>)"
    if "am_objects s r = Some t" for r t x
    using am_inv_object [OF inv that]
    by (intro am_inv_object_update [OF inv that]) (simp add: am_track_inv_def split: option.splits)
  show ?thesis
    using inv
    by (cases entry)
      (auto simp: am_updateTrack_def Let_def upd am_inv_stopTrack am_inv_logPosition
        split: option.splits)
qed

lemma am_inv_updatePositions_fold: "am_inv s \<Longrightarrow> am_inv (fold am_updateTrack xs s)"
  by (induction xs arbitrary: s) (simp_all add: am_inv_updateTrack)

lemma am_inv_updatePositions: "am_inv s \<Longrightarrow> am_inv (am_updatePositions s)"
  by (simp add: am_updatePositions_def am_inv_updatePositions_fold)

lemma am_inv_dispatched:
  "am_inv s \<Longrightarrow> am_inv (s\<lparr>am_nodes := (am_nodes s)(n := (am_nodes s n)\<lparr>sn_dispatched := True\<rparr>)\<rparr>)"
  by (rule am_inv_frame [where s = s])
    (auto simp: am_extends_def am_inv_def am_graph_inv_def split: option.splits)

lemma am_inv_onended: "am_inv s \<Longrightarrow> am_inv (am_onended n s)"
proof -
  assume inv: "am_inv s"
  define s1 where "s1 = s\<lparr>am_nodes := (am_nodes s)(n := (am_nodes s n)\<lparr>sn_dispatched := True\<rparr>)\<rparr>"
  have inv1: "am_inv s1" using inv by (simp add: s1_def am_inv_dispatched)
  have upd: "am_inv (s1\<lparr>am_objects := (am_objects s1)(r \<mapsto>
       t\<lparr>tr_isPlaying := False, tr_currentTime := 0, tr_pausedAt := 0\<rparr>)\<rparr>)"
    if "am_objects s1 r = Some t" for r t
    using am_inv_object [OF inv1 that]
    by (intro am_inv_object_update [OF inv1 that]) (simp add: am_track_inv_def split: option.splits)
  have "am_onended n s =
     (case sn_onended (am_nodes s n) of
           None \<Rightarrow> s1
         | Some (r, deckId) \<Rightarrow>
             (case am_objects s1 r of
                None \<Rightarrow> s1
              | Some track \<Rightarrow>
                  if tr_isPlaying track then
                    (let s2 = s1\<lparr>am_objects := (am_objects s1)(r \<mapsto>
                                  track\<lparr>tr_isPlaying := False, tr_currentTime := 0,
                                        tr_pausedAt := 0\<rparr>)\<rparr>
                     in if am_onTrackEnd s2
                        then s2\<lparr>am_trackEnds := am_trackEnds s2 @ [deckId]\<rparr>
                        else s2)
                  else s1))"
    unfolding s1_def by (simp add: am_onended_def Let_def)
  then show ?thesis
    using inv1 by (auto simp: Let_def upd am_inv_logTrackEnd split: option.splits)
qed

lemma am_inv_step: "am_inv s \<Longrightarrow> am_enabled c s \<Longrightarrow> am_inv (am_step c s)"
  by (cases c)
    (simp_all add: am_inv_initialize am_inv_setCallbacks am_inv_loadTrack am_inv_playTrack
      am_inv_pauseTrack am_inv_stopTrack am_inv_seekTo am_inv_setDeckVolume
      am_inv_setMasterVolume am_inv_setCrossfader am_inv_updatePositions am_inv_advance
      am_inv_onended)

lemma am_reachable_inv: "am_reachable s \<Longrightarrow> am_inv s"
  by (induction rule: am_reachable.induct) (simp_all add: am_inv_fields am_inv_step)

lemma ae_reachable_run: "ae_reachable s \<Longrightarrow> ae_valid cs s \<Longrightarrow> ae_reachable (ae_run cs s)"
  unfolding ae_run_def
  by (induction cs arbitrary: s) (auto intro: ae_next)

lemma am_reachable_run: "am_reachable s \<Longrightarrow> am_valid cs s \<Longrightarrow> am_reachable (am_run cs s)"
  unfolding am_run_def
  by (induction cs arbitrary: s) (auto intro: am_next)

lemmas ae_op_defs = ae_loadTrackToDeck_def ae_playDeck_def ae_pauseDeck_def ae_stopDeck_def
  ae_tryStop_def ae_onended_def ae_setDeckVolume_def ae_setMasterVolume_def ae_setCrossfader_def
  ae_updateCrossfader_def ae_getDeckState_def ae_getCurrentPosition_def ae_advance_def
  ae_resumed_def ae_after_def ae_can_end_def ae_loadAudioFile_def ae_acc_defs
  node_start_def node_stop_def node_can_end_def node_finished_def ctx_advance_def
  buffer_of_def Let_def

lemmas am_op_defs = am_loadTrack_def am_playTrack_def am_pauseTrack_def am_stopTrack_def
  am_stopSource_def am_stopNode_def am_onended_def am_setDeckVolume_def am_setMasterVolume_def
  am_setCrossfader_def am_getTrackInfo_def am_getCurrentTime_def am_seekTo_def
  am_updatePositions_def am_updateTrack_def am_setCallbacks_def am_advance_def am_get_def
  am_deckGain_def am_setDeckGain_def am_can_end_def or_zero_def
  node_start_def node_stop_def node_can_end_def node_finished_def ctx_advance_def
  buffer_of_def Let_def


lemma ae_reachable_loaded: "ae_reachable (ae_loaded d)"
  unfolding ae_loaded_def
  using ae_next [OF ae_start, of "AE_LoadTrackToDeck (ae_loadAudioFile ''track_1'' ''blob:1'' (buffer_of d)) A" True False]
  by simp

lemma am_reachable_loaded: "0 \<le> d \<Longrightarrow> am_reachable (am_loaded d)"
  unfolding am_loaded_def
  by (rule am_reachable_run [OF am_start]) (simp add: am_init_defs am_op_defs)

subsection \<open>The gain setters leave the transport alone\<close>

text \<open>
  C10. For every state and every number, \<open>setDeckVolume\<close>, \<open>setMasterVolume\<close> and
  \<open>setCrossfader\<close> of both engines change nothing but the automation targets of gain
  nodes and the stored volume, master volume and crossfader position: the tracks and
  buffers, the playing flags, start times and positions, the sources and the loaded
  tracks are as before.
\<close>

theorem C10_gain_setters_frame:
  "ae_transport (ae_after s (ae_setDeckVolume d v s)) = ae_transport s
   \<and> ae_transport (ae_after s (ae_setMasterVolume v s)) = ae_transport s
   \<and> ae_transport (ae_setCrossfader v s) = ae_transport s
   \<and> am_transport (am_setDeckVolume d v m) = am_transport m
   \<and> am_transport (am_setMasterVolume v m) = am_transport m
   \<and> am_transport (am_setCrossfader v m) = am_transport m"
proof -
  have 1: "ae_transport (ae_after s (ae_setDeckVolume d v s)) = ae_transport s"
    by (cases d)
      (auto simp: ae_transport_def ae_after_def ae_setDeckVolume_def ae_acc_defs Let_def
        no_target_def setTargetAtTime_def split: option.splits)
  have 2: "ae_transport (ae_after s (ae_setMasterVolume v s)) = ae_transport s"
    by (auto simp: ae_transport_def ae_after_def ae_setMasterVolume_def Let_def
        no_target_def setTargetAtTime_def split: option.splits)
  have 3: "ae_transport (ae_setCrossfader v s) = ae_transport s"
    by (auto simp: ae_transport_def ae_setCrossfader_def ae_updateCrossfader_def Let_def
        no_target_def setTargetAtTime_def split: option.splits)
  have 4: "am_transport (am_setDeckVolume d v m) = am_transport m"
    by (cases d)
      (auto simp: am_transport_def am_setDeckVolume_def am_deckGain_def am_setDeckGain_def
        Let_def no_target_def setTargetAtTime_def split: option.splits)
  have 5: "am_transport (am_setMasterVolume v m) = am_transport m"
    by (auto simp: am_transport_def am_setMasterVolume_def Let_def
        no_target_def setTargetAtTime_def split: option.splits)
  have 6: "am_transport (am_setCrossfader v m) = am_transport m"
    by (auto simp: am_transport_def am_setCrossfader_def Let_def
        no_target_def setTargetAtTime_def split: option.splits)
  show ?thesis using 1 2 3 4 5 6 by blast
qed

subsection \<open>Playing a deck that has nothing loaded\<close>

text \<open>
  C6. \<open>play\<close> on a deck without a buffer reports failure (both engines return
  \<open>false\<close>) and leaves the transport state alone. In \<open>AudioEngine\<close> the state of every
  deck, the source fields and the source nodes are as before (only a suspended
  context may have been resumed); in \<open>AudioManager\<close> nothing at all has changed.
\<close>

theorem C6_play_not_loaded:
  assumes "Option.bind (dk_audioTrack (ae_deckState d s)) et_audioBuffer = None"
    and "am_get m trackId = None"
  shows "\<not> fst (ae_playDeck d s)
       \<and> ae_deckState d' (snd (ae_playDeck d s)) = ae_deckState d' s
       \<and> ae_source d' (snd (ae_playDeck d s)) = ae_source d' s
       \<and> ae_nodes (snd (ae_playDeck d s)) = ae_nodes s
       \<and> am_playTrack trackId deckId m = (False, m)"
proof -
  have "ae_playDeck d s = (False, s) \<or>
        (\<exists>c. ae_playDeck d s = (False, s\<lparr>ae_audioContext := Some c\<rparr>))"
    using assms(1) by (auto simp: ae_playDeck_def Let_def split: option.splits)
  moreover have "am_playTrack trackId deckId m = (False, m)"
    using assms(2) by (simp add: am_playTrack_unchanged)
  ultimately show ?thesis by auto
qed

text \<open>
  C6, witness: deck B of a freshly constructed engine whose context is still
  suspended, and a track id that a freshly initialised manager does not hold.
\<close>

theorem C6_play_not_loaded_witness:
  "\<not> fst (ae_playDeck B (ae_constructor True True))
   \<and> ae_deckState B (snd (ae_playDeck B (ae_constructor True True))) = ae_initialDeck B
   \<and> ae_source B (snd (ae_playDeck B (ae_constructor True True))) = None
   \<and> am_playTrack ''t'' A (snd (am_initializeAudioContext True True am_fields))
       = (False, snd (am_initializeAudioContext True True am_fields))"
proof -
  have 1: "Option.bind (dk_audioTrack (ae_deckState B (ae_constructor True True))) et_audioBuffer = None"
    by (simp add: ae_init_defs ae_acc_defs)
  have 2: "am_get (snd (am_initializeAudioContext True True am_fields)) ''t'' = None"
    by (simp add: am_init_defs am_get_def)
  have 3: "ae_deckState B (ae_constructor True True) = ae_initialDeck B"
    "ae_source B (ae_constructor True True) = None"
    by (simp_all add: ae_init_defs ae_acc_defs)
  show ?thesis
    using C6_play_not_loaded [OF 1 2, of B A] by (simp add: 3)
qed

subsection \<open>The source field and the playing flag\<close>

lemma am_inv_playing_source:
  assumes "am_inv m" "am_getTrackInfo trackId m = Some track" "tr_isPlaying track"
  shows "tr_source track \<noteq> None"
proof -
  from assms(2) obtain r where "am_get m trackId = Some (r, track)"
    by (auto simp: am_getTrackInfo_def)
  from am_inv_get(3) [OF assms(1) this] assms(3) show ?thesis
    by (simp add: am_track_inv_def)
qed

text \<open>
  C2, as amended. After every call and every platform event of a run of
  \<open>AudioEngine\<close> (load, play, pause, stop, the gain setters, polling, and the \<open>ended\<close>
  event of a natural end), the source field of a deck is set if and only if the deck
  is playing. \<open>AudioManager\<close> never clears the source field of a track, so in its runs
  only one direction holds: a playing track has a source.
\<close>

theorem C2_source_iff_playing:
  assumes "ae_reachable s" and "am_reachable m"
  shows "(\<forall>d. (ae_source d s \<noteq> None) = dk_isPlaying (ae_deckState d s))
       \<and> (\<forall>trackId track. am_getTrackInfo trackId m = Some track \<longrightarrow>
             tr_isPlaying track \<longrightarrow> tr_source track \<noteq> None)"
proof -
  have "ae_inv s" using assms(1) by (rule ae_reachable_inv)
  then have "\<forall>d. (ae_source d s \<noteq> None) = dk_isPlaying (ae_deckState d s)"
    by (simp add: ae_inv_all ae_deck_inv_def Let_def)
  moreover have "am_inv m" using assms(2) by (rule am_reachable_inv)
  then have "\<forall>trackId track. am_getTrackInfo trackId m = Some track \<longrightarrow>
             tr_isPlaying track \<longrightarrow> tr_source track \<noteq> None"
    using am_inv_playing_source by blast
  ultimately show ?thesis by simp
qed

text \<open>
  C2, witness: an engine playing a 180 second track on deck A and a manager playing
  such a track; for the playing deck and the playing track the theorem gives that
  there is a source, for the idle deck B that there is none.
\<close>

theorem C2_source_iff_playing_witness:
  "ae_reachable (ae_run [AE_PlayDeck A] (ae_loaded 180))
   \<and> am_reachable (am_run [AM_PlayTrack ''t'' A] (am_loaded 180))
   \<and> dk_isPlaying (ae_deckState A (ae_run [AE_PlayDeck A] (ae_loaded 180)))
   \<and> ae_source A (ae_run [AE_PlayDeck A] (ae_loaded 180)) \<noteq> None
   \<and> \<not> dk_isPlaying (ae_deckState B (ae_run [AE_PlayDeck A] (ae_loaded 180)))
   \<and> ae_source B (ae_run [AE_PlayDeck A] (ae_loaded 180)) = None
   \<and> map_option tr_isPlaying
        (am_getTrackInfo ''t'' (am_run [AM_PlayTrack ''t'' A] (am_loaded 180))) = Some True
   \<and> map_option tr_source
        (am_getTrackInfo ''t'' (am_run [AM_PlayTrack ''t'' A] (am_loaded 180))) \<noteq> Some None"
proof -
  let ?s = "ae_run [AE_PlayDeck A] (ae_loaded 180)"
  let ?m = "am_run [AM_PlayTrack ''t'' A] (am_loaded 180)"
  have rs: "ae_reachable ?s"
    by (rule ae_reachable_run [OF ae_reachable_loaded]) simp
  have rm: "am_reachable ?m"
    by (rule am_reachable_run [OF am_reachable_loaded]) simp_all
  obtain track where track: "am_getTrackInfo ''t'' ?m = Some track" "tr_isPlaying track"
    by (simp add: am_run_def am_loaded_def am_init_defs am_op_defs)
  have pa: "dk_isPlaying (ae_deckState A ?s)" and pb: "\<not> dk_isPlaying (ae_deckState B ?s)"
    by (simp_all add: ae_run_def ae_loaded_def ae_init_defs ae_op_defs)
  note c2 = C2_source_iff_playing [OF rs rm]
  have "ae_source A ?s \<noteq> None" "ae_source B ?s = None" "tr_source track \<noteq> None"
    using c2 pa pb track by blast+
  then show ?thesis
    using rs rm pa pb track by auto
qed

text \<open>
  C2, counterexample: the claim as stated fails in \<open>AudioManager\<close>. After
  \<open>play\<close>, 90 seconds and \<open>pause\<close> the track is not playing, and its source field
  still holds the node that \<open>play\<close> created.
\<close>

theorem C2_am_pause_counterexample:
  "am_reachable (am_run [AM_PlayTrack ''t'' A, AM_Advance 90, AM_PauseTrack ''t''] (am_loaded 180))
   \<and> map_option (\<lambda>t. (tr_source t, tr_isPlaying t))
        (am_getTrackInfo ''t''
          (am_run [AM_PlayTrack ''t'' A, AM_Advance 90, AM_PauseTrack ''t''] (am_loaded 180)))
       = Some (Some 0, False)"
proof -
  have "am_reachable
      (am_run [AM_PlayTrack ''t'' A, AM_Advance 90, AM_PauseTrack ''t''] (am_loaded 180))"
    by (rule am_reachable_run [OF am_reachable_loaded]) simp_all
  moreover have "map_option (\<lambda>t. (tr_source t, tr_isPlaying t))
        (am_getTrackInfo ''t''
          (am_run [AM_PlayTrack ''t'' A, AM_Advance 90, AM_PauseTrack ''t''] (am_loaded 180)))
       = Some (Some 0, False)"
    by (simp add: am_run_def am_loaded_def am_init_defs am_op_defs)
  ultimately show ?thesis by simp
qed

subsection \<open>AudioEngine: what play, pause and the clock do to a deck\<close>

lemma ae_advance_simps [simp]:
  "ae_deckState d (ae_advance dt s) = ae_deckState d s"
  "ae_source d (ae_advance dt s) = ae_source d s"
  "ae_audioContext (ae_advance dt s) = map_option (ctx_advance dt) (ae_audioContext s)"
  by (cases d; simp add: ae_advance_def ae_acc_defs)+


lemma ae_playDeck_playing:
  assumes "ae_inv s" and "dk_isPlaying (ae_deckState d s)"
  shows "ae_playDeck d s = (True, s)"
proof -
  have g: "ae_graph_inv s" and k: "ae_deck_inv d s"
    using assms(1) by (simp_all add: ae_inv_all)
  from k assms(2) obtain c where c: "ae_audioContext s = Some c" "\<not> ctx_suspended c"
    and b: "Option.bind (dk_audioTrack (ae_deckState d s)) et_audioBuffer \<noteq> None"
    by (auto simp: ae_deck_inv_def Let_def split: option.splits)
  have "c\<lparr>ctx_suspended := False\<rparr> = c" using c(2) by simp
  then have "s\<lparr>ae_audioContext := Some (c\<lparr>ctx_suspended := False\<rparr>)\<rparr> = s"
    using c(1) by simp
  then show ?thesis
    using ae_graph_inv_gains [OF g c(1), of d] assms(2) b c(1)
    by (auto simp: ae_playDeck_def Let_def split: option.splits)
qed




subsection \<open>AudioManager: what play, pause and the clock do to a track\<close>

lemma am_playTrack_get:
  assumes "am_inv s" and "am_audioContext s = Some c" and "am_get s trackId = Some (r, track)"
  shows "fst (am_playTrack trackId d s)"
    and "am_get (snd (am_playTrack trackId d s)) trackId =
          Some (r, track\<lparr>tr_source := Some (am_nextNode s),
                tr_gainNode := Some \<lparr>gain_value = 1, gain_target = None\<rparr>,
                tr_startTime := ctx_currentTime c - tr_pausedAt track,
                tr_isPlaying := True, tr_pausedAt := 0\<rparr>)"
    and "am_audioContext (snd (am_playTrack trackId d s)) = Some (c\<lparr>ctx_suspended := False\<rparr>)"
  using am_inv_get(2) [OF assms(1,3)]
  by (simp_all add: am_playTrack_eq [OF assms] am_get_def)


lemma am_advance_get [simp]:
  "am_get (am_advance dt s) trackId = am_get s trackId"
  by (simp add: am_get_def am_advance_def split: option.splits)




subsection \<open>Pause and resume\<close>



subsection \<open>The position clock\<close>






subsection \<open>Seeking\<close>

lemma am_seekTo_effect:
  assumes inv: "am_inv m" and get: "am_get m trackId = Some (r, track)"
  shows "fst (am_seekTo trackId t deckId m)"
    and "am_getCurrentTime trackId (snd (am_seekTo trackId t deckId m)) =
           clamp 0 (tr_duration track) t"
    and "map_option tr_isPlaying (am_getTrackInfo trackId (snd (am_seekTo trackId t deckId m))) =
           Some (tr_isPlaying track)"
    and "\<not> tr_isPlaying track \<Longrightarrow>
           map_option tr_pausedAt (am_getTrackInfo trackId (snd (am_seekTo trackId t deckId m))) =
             Some (clamp 0 (tr_duration track) t)"
    and "tr_isPlaying track \<Longrightarrow>
           (case tr_source track of
              None \<Rightarrow> False
            | Some old \<Rightarrow> sn_status (am_nodes (snd (am_seekTo trackId t deckId m)) old) = Stopped)
           \<and> map_option tr_source (am_getTrackInfo trackId (snd (am_seekTo trackId t deckId m))) =
               Some (Some (am_nextNode m))
           \<and> sn_status (am_nodes (snd (am_seekTo trackId t deckId m)) (am_nextNode m)) = Started
           \<and> sn_offset (am_nodes (snd (am_seekTo trackId t deckId m)) (am_nextNode m)) =
               clamp 0 (tr_duration track) t"
proof -
  note tk = am_inv_get [OF inv get]
  from tk(4) obtain c where c: "am_audioContext m = Some c" by auto
  define nodes1 where "nodes1 = (case tr_source track of
             None \<Rightarrow> am_nodes m
           | Some n \<Rightarrow> (am_nodes m)(n := (am_nodes m n)\<lparr>sn_status := Stopped\<rparr>))"
  define t1 where "t1 = track\<lparr>tr_isPlaying := False, tr_pausedAt := 0, tr_currentTime := 0,
                tr_startTime := 0\<rparr>"
  define s1 where "s1 = m\<lparr>am_nodes := nodes1, am_objects := (am_objects m)(r \<mapsto> t1)\<rparr>"
  define t2 where "t2 = t1\<lparr>tr_pausedAt := max 0 (min (tr_duration t1) t)\<rparr>"
  define s2 where "s2 = s1\<lparr>am_objects := (am_objects s1)(r \<mapsto> t2)\<rparr>"
  have stop: "snd (am_stopTrack trackId m) = s1"
    by (simp add: am_stopTrack_eq [OF inv get] s1_def nodes1_def t1_def)
  have inv1: "am_inv s1" using am_inv_stopTrack [OF inv, of trackId] by (simp add: stop)
  have o1: "am_objects s1 r = Some t1" by (simp add: s1_def)
  have "am_track_inv s1 t2"
    using am_inv_object [OF inv1 o1]
    by (simp add: t2_def t1_def am_track_inv_def split: option.splits)
  then have inv2: "am_inv s2"
    unfolding s2_def by (rule am_inv_object_update [OF inv1 o1])
  have seek: "snd (am_seekTo trackId t deckId m) =
      (if tr_isPlaying track then snd (am_playTrack trackId deckId s2) else s2)"
    and ok: "fst (am_seekTo trackId t deckId m)"
    by (simp_all add: am_seekTo_def get Let_def stop o1 s2_def t2_def)
  have g2: "am_get s2 trackId = Some (r, t2)"
    using tk(2) by (simp add: am_get_def s2_def s1_def)
  have c2: "am_audioContext s2 = Some c"
    using c by (simp add: s2_def s1_def)
  have cl: "tr_pausedAt t2 = clamp 0 (tr_duration track) t" "\<not> tr_isPlaying t2"
    "tr_source t2 = tr_source track"
    by (simp_all add: t2_def t1_def clamp_def)
  note play = am_playTrack_eq [OF inv2 c2 g2, of deckId]
  note pg = am_playTrack_get [OF inv2 c2 g2, of deckId]
  show "fst (am_seekTo trackId t deckId m)" by (rule ok)
  show "am_getCurrentTime trackId (snd (am_seekTo trackId t deckId m)) =
           clamp 0 (tr_duration track) t"
    using g2 c2 cl pg(2,3) by (simp add: seek am_getCurrentTime_def)
  show "map_option tr_isPlaying (am_getTrackInfo trackId (snd (am_seekTo trackId t deckId m))) =
           Some (tr_isPlaying track)"
    using g2 cl pg(2) by (simp add: seek am_getTrackInfo_def)
  show "map_option tr_pausedAt (am_getTrackInfo trackId (snd (am_seekTo trackId t deckId m))) =
             Some (clamp 0 (tr_duration track) t)" if "\<not> tr_isPlaying track"
    using that g2 cl by (simp add: seek am_getTrackInfo_def)
  show "(case tr_source track of
              None \<Rightarrow> False
            | Some old \<Rightarrow> sn_status (am_nodes (snd (am_seekTo trackId t deckId m)) old) = Stopped)
           \<and> map_option tr_source (am_getTrackInfo trackId (snd (am_seekTo trackId t deckId m))) =
               Some (Some (am_nextNode m))
           \<and> sn_status (am_nodes (snd (am_seekTo trackId t deckId m)) (am_nextNode m)) = Started
           \<and> sn_offset (am_nodes (snd (am_seekTo trackId t deckId m)) (am_nextNode m)) =
               clamp 0 (tr_duration track) t" if "tr_isPlaying track"
  proof -
    from tk(3) that obtain old where old: "tr_source track = Some old" "old < am_nextNode m"
      by (auto simp: am_track_inv_def)
    have n2: "am_nextNode s2 = am_nextNode m" "am_nodes s2 = nodes1"
      by (simp_all add: s2_def s1_def)
    have nodes3: "am_nodes (snd (am_playTrack trackId deckId s2)) =
        (nodes1(old := (nodes1 old)\<lparr>sn_status := Stopped\<rparr>))
          (am_nextNode m :=
             \<lparr>sn_buffer = Some (tr_audioBuffer t2), sn_status = Started,
              sn_when = max 0 (ctx_currentTime c), sn_offset = tr_pausedAt t2,
              sn_onended = Some (r, deckId), sn_dispatched = False\<rparr>)"
      using old cl(3) by (simp add: play n2)
    have st: "sn_status (nodes1 old) = Stopped"
      using old by (simp add: nodes1_def)
    show ?thesis
      using that old cl pg(2) st
      by (simp add: seek nodes3 am_getTrackInfo_def n2)
  qed
qed


text \<open>
  C5. In a run of \<open>AudioManager\<close> (the engine that has a seek), for a loaded track of
  duration \<open>d\<close> and every \<open>t\<close>: \<open>seekTo t\<close> succeeds; the target \<open>clamp 0 d t\<close> lies in
  \<open>[0, d]\<close>; the position reported right after the call is exactly \<open>clamp 0 d t\<close>; the
  track is playing after the call if and only if it was before; a track that was not
  playing has its paused position set to the target; and for a track that was
  playing the previous source has been stopped and a new source has been started at
  the target offset.
\<close>

theorem C5_seek_clamps:
  assumes "am_reachable m" and "am_get m trackId = Some (r, track)"
  shows "fst (am_seekTo trackId t deckId m)
       \<and> 0 \<le> clamp 0 (tr_duration track) t
       \<and> clamp 0 (tr_duration track) t \<le> tr_duration track
       \<and> am_getCurrentTime trackId (snd (am_seekTo trackId t deckId m)) =
           clamp 0 (tr_duration track) t
       \<and> map_option tr_isPlaying (am_getTrackInfo trackId (snd (am_seekTo trackId t deckId m))) =
           Some (tr_isPlaying track)
       \<and> (\<not> tr_isPlaying track \<longrightarrow>
           map_option tr_pausedAt (am_getTrackInfo trackId (snd (am_seekTo trackId t deckId m))) =
             Some (clamp 0 (tr_duration track) t))
       \<and> (tr_isPlaying track \<longrightarrow>
           (case tr_source track of
              None \<Rightarrow> False
            | Some old \<Rightarrow> sn_status (am_nodes (snd (am_seekTo trackId t deckId m)) old) = Stopped)
           \<and> map_option tr_source (am_getTrackInfo trackId (snd (am_seekTo trackId t deckId m))) =
               Some (Some (am_nextNode m))
           \<and> sn_status (am_nodes (snd (am_seekTo trackId t deckId m)) (am_nextNode m)) = Started
           \<and> sn_offset (am_nodes (snd (am_seekTo trackId t deckId m)) (am_nextNode m)) =
               clamp 0 (tr_duration track) t)"
proof -
  have inv: "am_inv m" using assms(1) by (rule am_reachable_inv)
  have "0 \<le> tr_duration track"
    using am_inv_get(3) [OF inv assms(2)] by (simp add: am_track_inv_def)
  then have "0 \<le> clamp 0 (tr_duration track) t" "clamp 0 (tr_duration track) t \<le> tr_duration track"
    by (simp_all add: clamp_def)
  then show ?thesis
    using am_seekTo_effect [OF inv assms(2), of t deckId] by blast
qed

text \<open>
  C5, witness: with a 180 second track, a seek to 60 while the track is not playing
  leaves it not playing at position 60, and a seek to 200 while it is playing leaves
  it playing at position 180.
\<close>

theorem C5_seek_clamps_witness:
  "am_getCurrentTime ''t'' (snd (am_seekTo ''t'' 60 A (am_loaded 180))) = 60
   \<and> map_option tr_isPlaying (am_getTrackInfo ''t'' (snd (am_seekTo ''t'' 60 A (am_loaded 180)))) =
       Some False
   \<and> am_getCurrentTime ''t''
       (snd (am_seekTo ''t'' 200 A (am_run [AM_PlayTrack ''t'' A, AM_Advance 30] (am_loaded 180)))) = 180
   \<and> map_option tr_isPlaying (am_getTrackInfo ''t''
       (snd (am_seekTo ''t'' 200 A (am_run [AM_PlayTrack ''t'' A, AM_Advance 30] (am_loaded 180))))) =
       Some True"
proof -
  let ?m = "am_run [AM_PlayTrack ''t'' A, AM_Advance 30] (am_loaded 180)"
  have h1: "am_reachable (am_loaded 180)"
    by (rule am_reachable_loaded) simp
  have h2: "am_reachable ?m"
    by (rule am_reachable_run [OF h1]) simp
  have "map_option (\<lambda>(r, track). (tr_duration track, tr_isPlaying track))
      (am_get (am_loaded 180) ''t'') = Some (180, False)"
    by (simp add: am_loaded_def am_run_def am_init_defs am_op_defs)
  then obtain r track where g1: "am_get (am_loaded 180) ''t'' = Some (r, track)"
    and t1: "tr_duration track = 180" "\<not> tr_isPlaying track" by auto
  have "map_option (\<lambda>(r, track). (tr_duration track, tr_isPlaying track))
      (am_get ?m ''t'') = Some (180, True)"
    by (simp add: am_loaded_def am_run_def am_init_defs am_op_defs)
  then obtain r' track' where g2: "am_get ?m ''t'' = Some (r', track')"
    and t2: "tr_duration track' = 180" "tr_isPlaying track'" by auto
  show ?thesis
    using C5_seek_clamps [OF h1 g1, of 60 A] C5_seek_clamps [OF h2 g2, of 200 A] t1 t2
    by (simp add: clamp_def)
qed

subsection \<open>Loading\<close>

lemma ae_loadTrackToDeck_effect:
  "dk_audioTrack (ae_deckState d (ae_loadTrackToDeck audioTrack d s)) = Some audioTrack"
  "dk_position (ae_deckState d (ae_loadTrackToDeck audioTrack d s)) = 0"
  "\<not> dk_isPlaying (ae_deckState d (ae_loadTrackToDeck audioTrack d s))"
  "dk_isPlaying (ae_deckState d s) \<Longrightarrow> ae_source d (ae_loadTrackToDeck audioTrack d s) = None"
  "dk_isPlaying (ae_deckState d s) \<Longrightarrow> ae_source d s = Some n \<Longrightarrow>
     sn_status (ae_nodes (ae_loadTrackToDeck audioTrack d s) n) \<noteq> Started"
  "d' \<noteq> d \<Longrightarrow> ae_deckState d' (ae_loadTrackToDeck audioTrack d s) = ae_deckState d' s"
  "d' \<noteq> d \<Longrightarrow> ae_source d' (ae_loadTrackToDeck audioTrack d s) = ae_source d' s"
  by (auto simp: ae_loadTrackToDeck_def Let_def ae_stopDeck_same ae_stopDeck_other
      ae_stopDeck_def ae_tryStop_def node_stop_def split: option.splits)

text \<open>
  C9, as amended. In every state, \<open>loadTrackToDeck\<close> of \<open>AudioEngine\<close> leaves the deck
  with the given track, position 0 and not playing; if the deck was playing, its
  source field has been cleared and the node it held is no longer in the started
  state; the other deck is as before. \<open>loadTrack\<close> of \<open>AudioManager\<close> (with a context and
  a decoded buffer) stores a new track object under the track id, not playing, with
  paused position 0 and no source; it stops nothing: the source nodes and all other
  track objects are as before.
\<close>

theorem C9_load:
  assumes "am_audioContext m \<noteq> None"
  shows "dk_audioTrack (ae_deckState d (ae_loadTrackToDeck audioTrack d s)) = Some audioTrack
       \<and> dk_position (ae_deckState d (ae_loadTrackToDeck audioTrack d s)) = 0
       \<and> \<not> dk_isPlaying (ae_deckState d (ae_loadTrackToDeck audioTrack d s))
       \<and> (dk_isPlaying (ae_deckState d s) \<longrightarrow>
            ae_source d (ae_loadTrackToDeck audioTrack d s) = None
            \<and> (\<forall>n. ae_source d s = Some n \<longrightarrow>
                  sn_status (ae_nodes (ae_loadTrackToDeck audioTrack d s) n) \<noteq> Started))
       \<and> (\<forall>d'. d' \<noteq> d \<longrightarrow>
            ae_deckState d' (ae_loadTrackToDeck audioTrack d s) = ae_deckState d' s
            \<and> ae_source d' (ae_loadTrackToDeck audioTrack d s) = ae_source d' s)
       \<and> fst (am_loadTrack (Some b) trackId m)
       \<and> am_getTrackInfo trackId (snd (am_loadTrack (Some b) trackId m)) =
            Some \<lparr>tr_id = trackId, tr_audioBuffer = b, tr_source = None, tr_gainNode = None,
                  tr_isPlaying = False, tr_startTime = 0, tr_pausedAt = 0,
                  tr_duration = buf_duration b, tr_currentTime = 0\<rparr>
       \<and> am_nodes (snd (am_loadTrack (Some b) trackId m)) = am_nodes m
       \<and> (\<forall>r. r \<noteq> am_nextObject m \<longrightarrow>
            am_objects (snd (am_loadTrack (Some b) trackId m)) r = am_objects m r)"
proof -
  from assms obtain c where c: "am_audioContext m = Some c" by auto
  have "fst (am_loadTrack (Some b) trackId m)"
    by (simp add: am_loadTrack_def c Let_def)
  moreover have "am_getTrackInfo trackId (snd (am_loadTrack (Some b) trackId m)) =
            Some \<lparr>tr_id = trackId, tr_audioBuffer = b, tr_source = None, tr_gainNode = None,
                  tr_isPlaying = False, tr_startTime = 0, tr_pausedAt = 0,
                  tr_duration = buf_duration b, tr_currentTime = 0\<rparr>"
    by (simp add: am_loadTrack_eq [OF c] am_getTrackInfo_def am_get_def update_conv')
  moreover have "am_nodes (snd (am_loadTrack (Some b) trackId m)) = am_nodes m"
    and "\<forall>r. r \<noteq> am_nextObject m \<longrightarrow>
            am_objects (snd (am_loadTrack (Some b) trackId m)) r = am_objects m r"
    by (simp_all add: am_loadTrack_eq [OF c])
  ultimately show ?thesis
    by (simp add: ae_loadTrackToDeck_effect)
qed

text \<open>
  C9, witness: a 60 second track is loaded to deck A while the 180 second track is
  playing there, and a manager that holds a track is given another one.
\<close>

theorem C9_load_witness:
  "dk_audioTrack (ae_deckState A
      (ae_loadTrackToDeck (ae_loadAudioFile ''track_2'' ''blob:2'' (buffer_of 60)) A
         (ae_run [AE_PlayDeck A, AE_Advance 30] (ae_loaded 180)))) =
     Some (ae_loadAudioFile ''track_2'' ''blob:2'' (buffer_of 60))
   \<and> \<not> dk_isPlaying (ae_deckState A
      (ae_loadTrackToDeck (ae_loadAudioFile ''track_2'' ''blob:2'' (buffer_of 60)) A
         (ae_run [AE_PlayDeck A, AE_Advance 30] (ae_loaded 180))))
   \<and> ae_source A
      (ae_loadTrackToDeck (ae_loadAudioFile ''track_2'' ''blob:2'' (buffer_of 60)) A
         (ae_run [AE_PlayDeck A, AE_Advance 30] (ae_loaded 180))) = None
   \<and> sn_status (ae_nodes
      (ae_loadTrackToDeck (ae_loadAudioFile ''track_2'' ''blob:2'' (buffer_of 60)) A
         (ae_run [AE_PlayDeck A, AE_Advance 30] (ae_loaded 180))) 0) \<noteq> Started
   \<and> map_option tr_duration
       (am_getTrackInfo ''u'' (snd (am_loadTrack (Some (buffer_of 60)) ''u'' (am_loaded 180)))) =
     Some 60"
proof -
  let ?s = "ae_run [AE_PlayDeck A, AE_Advance 30] (ae_loaded 180)"
  have e: "dk_isPlaying (ae_deckState A ?s)" "ae_source A ?s = Some 0"
    by (simp_all add: ae_run_def ae_loaded_def ae_init_defs ae_op_defs)
  have m: "am_audioContext (am_loaded 180) \<noteq> None"
    by (simp add: am_loaded_def am_run_def am_init_defs am_op_defs)
  show ?thesis
    using C9_load [OF m, of A "ae_loadAudioFile ''track_2'' ''blob:2'' (buffer_of 60)" ?s
        "buffer_of 60" "''u''"] e
    by (simp add: buffer_of_def)
qed

text \<open>
  C9, counterexample: the claim as stated fails in \<open>AudioManager\<close>. Track \<open>t\<close> is
  playing through source node 0 when another buffer is loaded under the same id:
  the node is still in the started state, the replaced track object (at address 0) is
  still marked playing, and the manager now answers for \<open>t\<close> with the new object.
\<close>

theorem C9_am_load_counterexample:
  "am_reachable
     (am_run [AM_PlayTrack ''t'' A, AM_Advance 30, AM_LoadTrack (Some (buffer_of 60)) ''t'']
        (am_loaded 180))
   \<and> sn_status (am_nodes
        (am_run [AM_PlayTrack ''t'' A, AM_Advance 30, AM_LoadTrack (Some (buffer_of 60)) ''t'']
           (am_loaded 180)) 0) = Started
   \<and> map_option tr_isPlaying (am_objects
        (am_run [AM_PlayTrack ''t'' A, AM_Advance 30, AM_LoadTrack (Some (buffer_of 60)) ''t'']
           (am_loaded 180)) 0) = Some True
   \<and> map_option (\<lambda>t. (tr_duration t, tr_isPlaying t, tr_source t)) (am_getTrackInfo ''t''
        (am_run [AM_PlayTrack ''t'' A, AM_Advance 30, AM_LoadTrack (Some (buffer_of 60)) ''t'']
           (am_loaded 180))) = Some (60, False, None)"
proof -
  let ?m = "am_run [AM_PlayTrack ''t'' A, AM_Advance 30, AM_LoadTrack (Some (buffer_of 60)) ''t'']
        (am_loaded 180)"
  have h1: "am_reachable (am_loaded 180)"
    by (rule am_reachable_loaded) simp
  have "am_reachable ?m"
    by (rule am_reachable_run [OF h1]) (simp add: buffer_of_def)
  moreover have "sn_status (am_nodes ?m 0) = Started"
    "map_option tr_isPlaying (am_objects ?m 0) = Some True"
    "map_option (\<lambda>t. (tr_duration t, tr_isPlaying t, tr_source t)) (am_getTrackInfo ''t'' ?m) =
       Some (60, False, None)"
    by (simp_all add: am_loaded_def am_run_def am_init_defs am_op_defs)
  ultimately show ?thesis by simp
qed

subsection \<open>Redundant transport calls\<close>

lemma ae_setDeckState_same [simp]: "ae_setDeckState d (ae_deckState d s) s = s"
  by (cases d) (simp_all add: ae_acc_defs)

lemma ae_pauseDeck_idle: "\<not> dk_isPlaying (ae_deckState d s) \<Longrightarrow> ae_pauseDeck d s = s"
  by (simp add: ae_pauseDeck_def Let_def)

lemma ae_stopDeck_idle:
  assumes "\<not> dk_isPlaying (ae_deckState d s)"
  shows "ae_stopDeck d s = ae_setDeckState d ((ae_deckState d s)\<lparr>dk_position := 0\<rparr>) s"
proof -
  have e: "(ae_deckState d s)\<lparr>dk_position := 0, dk_isPlaying := False\<rparr> =
      (ae_deckState d s)\<lparr>dk_position := 0\<rparr>"
    using assms by simp
  have "ae_stopDeck d s =
      ae_setDeckState d ((ae_deckState d s)\<lparr>dk_position := 0, dk_isPlaying := False\<rparr>) s"
    using assms by (simp add: ae_stopDeck_def Let_def)
  then show ?thesis by (simp only: e)
qed

lemma ae_pauseDeck_twice: "ae_pauseDeck d (ae_pauseDeck d s) = ae_pauseDeck d s"
proof (cases "ae_pauseDeck d s = s")
  case True
  then show ?thesis by simp
next
  case False
  then have "\<not> dk_isPlaying (ae_deckState d (ae_pauseDeck d s))"
    by (auto simp: ae_pauseDeck_def Let_def split: option.splits if_splits)
  then show ?thesis by (rule ae_pauseDeck_idle)
qed

lemma ae_stopDeck_twice: "ae_stopDeck d (ae_stopDeck d s) = ae_stopDeck d s"
proof -
  have e: "(ae_deckState d (ae_stopDeck d s))\<lparr>dk_position := 0\<rparr> = ae_deckState d (ae_stopDeck d s)"
    using ae_stopDeck_same(2) [of d s] by simp
  have i: "\<not> dk_isPlaying (ae_deckState d (ae_stopDeck d s))"
    by (simp add: ae_stopDeck_same)
  show ?thesis
    by (simp only: ae_stopDeck_idle [OF i] e ae_setDeckState_same)
qed

lemma am_pauseTrack_idle:
  "am_get m trackId = Some (r, track) \<Longrightarrow> \<not> tr_isPlaying track \<Longrightarrow>
     am_pauseTrack trackId m = (False, m)"
  by (simp add: am_pauseTrack_def split: option.splits)

lemma am_pauseTrack_twice:
  "snd (am_pauseTrack trackId (snd (am_pauseTrack trackId m))) = snd (am_pauseTrack trackId m)"
proof (cases "snd (am_pauseTrack trackId m) = m")
  case True
  then show ?thesis by simp
next
  case False
  then obtain r track c s1 where g: "am_get m trackId = Some (r, track)"
    and c: "am_audioContext m = Some c" and p: "tr_isPlaying track"
    and s1: "am_stopSource track m = Some s1"
    by (auto simp: am_pauseTrack_def split: option.splits if_splits)
  have s1': "am_tracks s1 = am_tracks m" "am_objects s1 = am_objects m"
    using s1 by (auto simp: am_stopSource_def am_stopNode_def split: option.splits)
  define t1 where "t1 = track\<lparr>tr_pausedAt := ctx_currentTime c - tr_startTime track,
      tr_isPlaying := False, tr_currentTime := ctx_currentTime c - tr_startTime track\<rparr>"
  have eq: "snd (am_pauseTrack trackId m) = s1\<lparr>am_objects := (am_objects s1)(r \<mapsto> t1)\<rparr>"
    by (simp add: am_pauseTrack_def g c p s1 Let_def t1_def)
  have "am_get (snd (am_pauseTrack trackId m)) trackId = Some (r, t1)"
    using g by (auto simp: eq am_get_def s1' split: option.splits)
  moreover have "\<not> tr_isPlaying t1" by (simp add: t1_def)
  ultimately show ?thesis by (simp add: am_pauseTrack_idle)
qed

lemma am_stopTrack_twice:
  assumes "am_inv m"
  shows "snd (am_stopTrack trackId (snd (am_stopTrack trackId m))) = snd (am_stopTrack trackId m)"
proof (cases "am_get m trackId")
  case None
  then show ?thesis by (simp add: am_stopTrack_def)
next
  case (Some a)
  obtain r track where g: "am_get m trackId = Some (r, track)" using Some by (cases a) simp
  define nodes1 where "nodes1 = (case tr_source track of
             None \<Rightarrow> am_nodes m
           | Some n \<Rightarrow> (am_nodes m)(n := (am_nodes m n)\<lparr>sn_status := Stopped\<rparr>))"
  define t1 where "t1 = track\<lparr>tr_isPlaying := False, tr_pausedAt := 0, tr_currentTime := 0,
                tr_startTime := 0\<rparr>"
  define s1 where "s1 = m\<lparr>am_nodes := nodes1, am_objects := (am_objects m)(r \<mapsto> t1)\<rparr>"
  have stop: "snd (am_stopTrack trackId m) = s1"
    by (simp add: am_stopTrack_eq [OF assms g] s1_def nodes1_def t1_def)
  have inv1: "am_inv s1" using am_inv_stopTrack [OF assms, of trackId] by (simp add: stop)
  have g1: "am_get s1 trackId = Some (r, t1)"
    using am_inv_get(2) [OF assms g] by (simp add: am_get_def s1_def)
  have n: "(case tr_source t1 of
             None \<Rightarrow> am_nodes s1
           | Some n \<Rightarrow> (am_nodes s1)(n := (am_nodes s1 n)\<lparr>sn_status := Stopped\<rparr>)) = nodes1"
    by (cases "tr_source track") (auto simp: t1_def s1_def nodes1_def)
  have o: "(am_objects s1)(r \<mapsto> t1\<lparr>tr_isPlaying := False, tr_pausedAt := 0, tr_currentTime := 0,
                tr_startTime := 0\<rparr>) = am_objects s1"
    by (auto simp: s1_def t1_def)
  have "snd (am_stopTrack trackId s1) = s1\<lparr>am_nodes := nodes1, am_objects := am_objects s1\<rparr>"
    by (simp add: am_stopTrack_eq [OF inv1 g1] n o)
  also have "\<dots> = s1" by (simp add: s1_def)
  finally show ?thesis by (simp add: stop)
qed

text \<open>
  C7, as amended. Redundant transport calls never raise, and in the runs of the
  engines:
  \<^item> in \<open>AudioEngine\<close>, \<open>play\<close> on a playing deck returns \<open>true\<close> and changes nothing, and
    \<open>pause\<close> on a deck that is not playing changes nothing;
  \<^item> in \<open>AudioManager\<close>, \<open>pauseTrack\<close> on a track that is not playing changes nothing
    and returns \<open>false\<close>, and \<open>playTrack\<close> on a playing track returns \<open>true\<close> after
    replacing the source: the track plays again from position 0;
  \<^item> \<open>stop\<close> on a deck that is not playing returns (\<open>true\<close> in \<open>AudioManager\<close>) and
    resets the position fields, changing nothing else of the deck;
  \<^item> two calls of \<open>pause\<close> in a row, and two calls of \<open>stop\<close> in a row, leave the state
    that one call leaves.
\<close>

theorem C7_redundant_calls:
  assumes "ae_reachable s" and "am_reachable m"
  shows "(dk_isPlaying (ae_deckState d s) \<longrightarrow> ae_playDeck d s = (True, s))
       \<and> (\<not> dk_isPlaying (ae_deckState d s) \<longrightarrow>
            ae_pauseDeck d s = s
            \<and> ae_stopDeck d s = ae_setDeckState d ((ae_deckState d s)\<lparr>dk_position := 0\<rparr>) s)
       \<and> ae_pauseDeck d (ae_pauseDeck d s) = ae_pauseDeck d s
       \<and> ae_stopDeck d (ae_stopDeck d s) = ae_stopDeck d s
       \<and> (\<forall>r track. am_get m trackId = Some (r, track) \<longrightarrow> \<not> tr_isPlaying track \<longrightarrow>
            am_pauseTrack trackId m = (False, m)
            \<and> fst (am_stopTrack trackId m)
            \<and> am_getTrackInfo trackId (snd (am_stopTrack trackId m)) =
                Some (track\<lparr>tr_pausedAt := 0, tr_currentTime := 0, tr_startTime := 0\<rparr>))
       \<and> (\<forall>r track. am_get m trackId = Some (r, track) \<longrightarrow> tr_isPlaying track \<longrightarrow>
            fst (am_playTrack trackId deckId m)
            \<and> map_option tr_isPlaying (am_getTrackInfo trackId (snd (am_playTrack trackId deckId m))) =
                Some True
            \<and> map_option tr_source (am_getTrackInfo trackId (snd (am_playTrack trackId deckId m))) =
                Some (Some (am_nextNode m))
            \<and> am_getCurrentTime trackId (snd (am_playTrack trackId deckId m)) = 0)
       \<and> snd (am_pauseTrack trackId (snd (am_pauseTrack trackId m))) = snd (am_pauseTrack trackId m)
       \<and> snd (am_stopTrack trackId (snd (am_stopTrack trackId m))) = snd (am_stopTrack trackId m)"
proof -
  have inv: "ae_inv s" using assms(1) by (rule ae_reachable_inv)
  have minv: "am_inv m" using assms(2) by (rule am_reachable_inv)
  have 1: "dk_isPlaying (ae_deckState d s) \<longrightarrow> ae_playDeck d s = (True, s)"
    using ae_playDeck_playing [OF inv] by blast
  have 2: "\<not> dk_isPlaying (ae_deckState d s) \<longrightarrow>
            ae_pauseDeck d s = s
            \<and> ae_stopDeck d s = ae_setDeckState d ((ae_deckState d s)\<lparr>dk_position := 0\<rparr>) s"
    by (simp add: ae_pauseDeck_idle ae_stopDeck_idle)
  have 3: "\<forall>r track. am_get m trackId = Some (r, track) \<longrightarrow> \<not> tr_isPlaying track \<longrightarrow>
            am_pauseTrack trackId m = (False, m)
            \<and> fst (am_stopTrack trackId m)
            \<and> am_getTrackInfo trackId (snd (am_stopTrack trackId m)) =
                Some (track\<lparr>tr_pausedAt := 0, tr_currentTime := 0, tr_startTime := 0\<rparr>)"
  proof (intro allI impI)
    fix r track assume g: "am_get m trackId = Some (r, track)" and i: "\<not> tr_isPlaying track"
    have "track\<lparr>tr_isPlaying := False, tr_pausedAt := 0, tr_currentTime := 0, tr_startTime := 0\<rparr>
        = track\<lparr>tr_pausedAt := 0, tr_currentTime := 0, tr_startTime := 0\<rparr>"
      using i by simp
    then show "am_pauseTrack trackId m = (False, m)
            \<and> fst (am_stopTrack trackId m)
            \<and> am_getTrackInfo trackId (snd (am_stopTrack trackId m)) =
                Some (track\<lparr>tr_pausedAt := 0, tr_currentTime := 0, tr_startTime := 0\<rparr>)"
      using am_inv_get(2) [OF minv g]
      by (simp add: am_pauseTrack_idle [OF g i] am_stopTrack_eq [OF minv g]
          am_getTrackInfo_def am_get_def)
  qed
  have 4: "\<forall>r track. am_get m trackId = Some (r, track) \<longrightarrow> tr_isPlaying track \<longrightarrow>
            fst (am_playTrack trackId deckId m)
            \<and> map_option tr_isPlaying (am_getTrackInfo trackId (snd (am_playTrack trackId deckId m))) =
                Some True
            \<and> map_option tr_source (am_getTrackInfo trackId (snd (am_playTrack trackId deckId m))) =
                Some (Some (am_nextNode m))
            \<and> am_getCurrentTime trackId (snd (am_playTrack trackId deckId m)) = 0"
  proof (intro allI impI)
    fix r track assume g: "am_get m trackId = Some (r, track)" and p: "tr_isPlaying track"
    note tk = am_inv_get [OF minv g]
    from tk(4) obtain c where c: "am_audioContext m = Some c" by auto
    have z: "tr_pausedAt track = 0" using tk(3) p by (simp add: am_track_inv_def)
    note pg = am_playTrack_get [OF minv c g, of deckId]
    show "fst (am_playTrack trackId deckId m)
            \<and> map_option tr_isPlaying (am_getTrackInfo trackId (snd (am_playTrack trackId deckId m))) =
                Some True
            \<and> map_option tr_source (am_getTrackInfo trackId (snd (am_playTrack trackId deckId m))) =
                Some (Some (am_nextNode m))
            \<and> am_getCurrentTime trackId (snd (am_playTrack trackId deckId m)) = 0"
      using pg z by (simp add: am_getTrackInfo_def am_getCurrentTime_def)
  qed
  show ?thesis
    using 1 2 3 4 ae_pauseDeck_twice [of d s] ae_stopDeck_twice [of d s]
      am_pauseTrack_twice [of trackId m] am_stopTrack_twice [OF minv, of trackId]
    by blast
qed


text \<open>
  C7, witness: an engine with deck A playing and deck B idle, a manager with track
  \<open>t\<close> idle, and the same manager 90 seconds into playing \<open>t\<close>.
\<close>

theorem C7_redundant_calls_witness:
  "ae_playDeck A (ae_run [AE_PlayDeck A] (ae_loaded 180)) =
     (True, ae_run [AE_PlayDeck A] (ae_loaded 180))
   \<and> ae_pauseDeck B (ae_run [AE_PlayDeck A] (ae_loaded 180)) = ae_run [AE_PlayDeck A] (ae_loaded 180)
   \<and> ae_pauseDeck A (ae_pauseDeck A (ae_run [AE_PlayDeck A] (ae_loaded 180))) =
       ae_pauseDeck A (ae_run [AE_PlayDeck A] (ae_loaded 180))
   \<and> ae_stopDeck A (ae_stopDeck A (ae_run [AE_PlayDeck A] (ae_loaded 180))) =
       ae_stopDeck A (ae_run [AE_PlayDeck A] (ae_loaded 180))
   \<and> am_pauseTrack ''t'' (am_loaded 180) = (False, am_loaded 180)
   \<and> fst (am_stopTrack ''t'' (am_loaded 180))
   \<and> fst (am_playTrack ''t'' A (am_run [AM_PlayTrack ''t'' A, AM_Advance 90] (am_loaded 180)))
   \<and> am_getCurrentTime ''t''
       (snd (am_playTrack ''t'' A (am_run [AM_PlayTrack ''t'' A, AM_Advance 90] (am_loaded 180)))) = 0
   \<and> snd (am_stopTrack ''t'' (snd (am_stopTrack ''t''
         (am_run [AM_PlayTrack ''t'' A, AM_Advance 90] (am_loaded 180))))) =
       snd (am_stopTrack ''t'' (am_run [AM_PlayTrack ''t'' A, AM_Advance 90] (am_loaded 180)))"
proof -
  let ?s = "ae_run [AE_PlayDeck A] (ae_loaded 180)"
  let ?m = "am_run [AM_PlayTrack ''t'' A, AM_Advance 90] (am_loaded 180)"
  have rs: "ae_reachable ?s"
    by (rule ae_reachable_run [OF ae_reachable_loaded]) simp
  have rm1: "am_reachable (am_loaded 180)"
    by (rule am_reachable_loaded) simp
  have rm: "am_reachable ?m"
    by (rule am_reachable_run [OF rm1]) simp
  have e: "dk_isPlaying (ae_deckState A ?s)" "\<not> dk_isPlaying (ae_deckState B ?s)"
    by (simp_all add: ae_run_def ae_loaded_def ae_init_defs ae_op_defs)
  have "map_option (tr_isPlaying \<circ> snd) (am_get (am_loaded 180) ''t'') = Some False"
    by (simp add: am_loaded_def am_run_def am_init_defs am_op_defs)
  then obtain r1 t1 where g1: "am_get (am_loaded 180) ''t'' = Some (r1, t1)" "\<not> tr_isPlaying t1"
    by auto
  have "map_option (tr_isPlaying \<circ> snd) (am_get ?m ''t'') = Some True"
    by (simp add: am_loaded_def am_run_def am_init_defs am_op_defs)
  then obtain r2 t2 where g2: "am_get ?m ''t'' = Some (r2, t2)" "tr_isPlaying t2"
    by auto
  show ?thesis
    using C7_redundant_calls [OF rs rm1, of A "''t''"] C7_redundant_calls [OF rs rm1, of B "''t''"]
      C7_redundant_calls [OF rs rm, of A "''t''" A] e g1 g2
    by simp
qed

text \<open>
  C7, counterexample: the claim as stated fails. In \<open>AudioManager\<close>, \<open>pauseTrack\<close> on a
  loaded track that is not playing returns \<open>false\<close>, and \<open>playTrack\<close> on a track that
  is 90 seconds into playing is not a no-op: the position is 0 afterwards. In
  \<open>AudioEngine\<close>, \<open>stopDeck\<close> on a deck paused at 90 seconds is not a no-op either: the
  position is 0 afterwards.
\<close>

theorem C7_not_no_ops_counterexample:
  "\<not> fst (am_pauseTrack ''t'' (am_loaded 180))
   \<and> am_getCurrentTime ''t'' (am_run [AM_PlayTrack ''t'' A, AM_Advance 90] (am_loaded 180)) = 90
   \<and> am_getCurrentTime ''t''
       (am_run [AM_PlayTrack ''t'' A, AM_Advance 90, AM_PlayTrack ''t'' A] (am_loaded 180)) = 0
   \<and> ae_getCurrentPosition A
       (ae_run [AE_PlayDeck A, AE_Advance 90, AE_PauseDeck A] (ae_loaded 180)) = 90
   \<and> ae_getCurrentPosition A
       (ae_run [AE_PlayDeck A, AE_Advance 90, AE_PauseDeck A, AE_StopDeck A] (ae_loaded 180)) = 0"
proof -
  have 1: "\<not> fst (am_pauseTrack ''t'' (am_loaded 180))"
    by (simp add: am_loaded_def am_run_def am_init_defs am_op_defs)
  have 2: "am_getCurrentTime ''t'' (am_run [AM_PlayTrack ''t'' A, AM_Advance 90] (am_loaded 180)) = 90"
    by (simp add: am_loaded_def am_run_def am_init_defs am_op_defs)
  have 3: "am_getCurrentTime ''t''
       (am_run [AM_PlayTrack ''t'' A, AM_Advance 90, AM_PlayTrack ''t'' A] (am_loaded 180)) = 0"
    by (simp add: am_loaded_def am_run_def am_init_defs am_op_defs)
  have 4: "ae_getCurrentPosition A
       (ae_run [AE_PlayDeck A, AE_Advance 90, AE_PauseDeck A] (ae_loaded 180)) = 90"
    by (simp add: ae_loaded_def ae_run_def ae_init_defs ae_op_defs)
  have 5: "ae_getCurrentPosition A
       (ae_run [AE_PlayDeck A, AE_Advance 90, AE_PauseDeck A, AE_StopDeck A] (ae_loaded 180)) = 0"
    by (simp add: ae_loaded_def ae_run_def ae_init_defs ae_op_defs)
  show ?thesis using 1 2 3 4 5 by blast
qed

subsection \<open>The end of a track\<close>

text \<open>
  C4, evaluated on \<open>AudioManager\<close>. A 10 second track plays to its end.
  \<^item> When the polling pass sees the end first, it stops the track without calling
    \<open>onTrackEnd\<close>; the \<open>ended\<close> event that follows finds the track not playing and calls
    nothing either: the track is left not playing at position 0, and no notification
    at all has fired.
  \<^item> When the \<open>ended\<close> event comes first, exactly one notification fires, and the
    polling pass that follows adds none.
  \<^item> A notification also fires without any natural end: \<open>seekTo\<close> on a playing
    180 second track stops source 0 and starts source 1; when the platform dispatches
    the \<open>ended\<close> event of the stopped source 0, the handler finds the track playing
    again, marks it not playing and calls \<open>onTrackEnd\<close>, while source 1 is still in
    the started state.
  Each of the three sequences is a run of the manager.
\<close>

theorem C4_end_of_track_notifications:
  "am_valid [AM_PlayTrack ''t'' A, AM_Advance 10, AM_UpdatePositions, AM_Ended 0] (am_loaded 10)
   \<and> am_trackEnds
        (am_run [AM_PlayTrack ''t'' A, AM_Advance 10, AM_UpdatePositions, AM_Ended 0]
           (am_loaded 10)) = []
   \<and> map_option (\<lambda>t. (tr_isPlaying t, tr_pausedAt t)) (am_getTrackInfo ''t''
        (am_run [AM_PlayTrack ''t'' A, AM_Advance 10, AM_UpdatePositions, AM_Ended 0]
           (am_loaded 10))) = Some (False, 0)
   \<and> am_valid [AM_PlayTrack ''t'' A, AM_Advance 10, AM_Ended 0, AM_UpdatePositions] (am_loaded 10)
   \<and> am_trackEnds
        (am_run [AM_PlayTrack ''t'' A, AM_Advance 10, AM_Ended 0, AM_UpdatePositions]
           (am_loaded 10)) = [A]
   \<and> am_valid [AM_PlayTrack ''t'' A, AM_Advance 30, AM_SeekTo ''t'' 60 A, AM_Ended 0] (am_loaded 180)
   \<and> am_trackEnds
        (am_run [AM_PlayTrack ''t'' A, AM_Advance 30, AM_SeekTo ''t'' 60 A, AM_Ended 0]
           (am_loaded 180)) = [A]
   \<and> map_option tr_isPlaying (am_getTrackInfo ''t''
        (am_run [AM_PlayTrack ''t'' A, AM_Advance 30, AM_SeekTo ''t'' 60 A, AM_Ended 0]
           (am_loaded 180))) = Some False
   \<and> sn_status (am_nodes
        (am_run [AM_PlayTrack ''t'' A, AM_Advance 30, AM_SeekTo ''t'' 60 A, AM_Ended 0]
           (am_loaded 180)) 1) = Started"
proof -
  have 1: "am_valid [AM_PlayTrack ''t'' A, AM_Advance 10, AM_UpdatePositions, AM_Ended 0]
      (am_loaded 10)"
    by (simp add: am_loaded_def am_run_def am_init_defs am_op_defs)
  have 2: "am_trackEnds
        (am_run [AM_PlayTrack ''t'' A, AM_Advance 10, AM_UpdatePositions, AM_Ended 0]
           (am_loaded 10)) = []"
    "map_option (\<lambda>t. (tr_isPlaying t, tr_pausedAt t)) (am_getTrackInfo ''t''
        (am_run [AM_PlayTrack ''t'' A, AM_Advance 10, AM_UpdatePositions, AM_Ended 0]
           (am_loaded 10))) = Some (False, 0)"
    by (simp_all add: am_loaded_def am_run_def am_init_defs am_op_defs)
  have 3: "am_valid [AM_PlayTrack ''t'' A, AM_Advance 10, AM_Ended 0, AM_UpdatePositions]
      (am_loaded 10)"
    by (simp add: am_loaded_def am_run_def am_init_defs am_op_defs)
  have 4: "am_trackEnds
        (am_run [AM_PlayTrack ''t'' A, AM_Advance 10, AM_Ended 0, AM_UpdatePositions]
           (am_loaded 10)) = [A]"
    by (simp add: am_loaded_def am_run_def am_init_defs am_op_defs)
  have 5: "am_valid [AM_PlayTrack ''t'' A, AM_Advance 30, AM_SeekTo ''t'' 60 A, AM_Ended 0]
      (am_loaded 180)"
    by (simp add: am_loaded_def am_run_def am_init_defs am_op_defs)
  have 6: "am_trackEnds
        (am_run [AM_PlayTrack ''t'' A, AM_Advance 30, AM_SeekTo ''t'' 60 A, AM_Ended 0]
           (am_loaded 180)) = [A]"
    "map_option tr_isPlaying (am_getTrackInfo ''t''
        (am_run [AM_PlayTrack ''t'' A, AM_Advance 30, AM_SeekTo ''t'' 60 A, AM_Ended 0]
           (am_loaded 180))) = Some False"
    "sn_status (am_nodes
        (am_run [AM_PlayTrack ''t'' A, AM_Advance 30, AM_SeekTo ''t'' 60 A, AM_Ended 0]
           (am_loaded 180)) 1) = Started"
    by (simp_all add: am_loaded_def am_run_def am_init_defs am_op_defs)
  show ?thesis using 1 2 3 4 5 6 by blast
qed

end
